theory Spec2Isabelle
  imports Complex_Main "HOL-Library.Multiset" "HOL-Library.Sublist"
begin

section \<open>The JavaScript Date object\<close>

text \<open>
  \<^verbatim>\<open>app.js\<close> computes every window with the built-in \<^verbatim>\<open>Date\<close>. A Date is a time value:
  the number of milliseconds since 1970-01-01T00:00:00Z. The definitions below follow the
  abstract operations of the ECMAScript specification (Day, DayFromYear, YearFromTime,
  MonthFromTime, DateFromTime, WeekDay, MakeDay, MakeDate).

  Local time is the host's. The model takes the local zone as a fixed offset \<open>tz\<close> in
  milliseconds (local = UTC + \<open>tz\<close>); zones that change their offset during the year are
  outside the model. Time values are unbounded integers: the range limit of
  \<^verbatim>\<open>Date\<close> (8.64e15 ms either side of the epoch) is not modelled.
\<close>

type_synonym time = int

definition msPerDay :: int where
  "msPerDay = 86400000"

definition Day :: "time \<Rightarrow> int" where
  "Day t = t div msPerDay"

definition TimeWithinDay :: "time \<Rightarrow> int" where
  "TimeWithinDay t = t mod msPerDay"

definition DayFromYear :: "int \<Rightarrow> int" where
  "DayFromYear y =
     365 * (y - 1970) + (y - 1969) div 4 - (y - 1901) div 100 + (y - 1601) div 400"

definition InLeapYear :: "int \<Rightarrow> bool" where
  "InLeapYear y = (y mod 4 = 0 \<and> (y mod 100 \<noteq> 0 \<or> y mod 400 = 0))"

text \<open>The year of a day number: the largest \<open>y\<close> with \<open>DayFromYear y \<le> d\<close>, found from the
  mean length of a year and corrected by one where the estimate is off.\<close>

definition YearFromDay :: "int \<Rightarrow> int" where
  "YearFromDay d =
     (let y = 1970 + (400 * d) div 146097
      in if d < DayFromYear y then y - 1
         else if DayFromYear (y + 1) \<le> d then y + 1
         else y)"

text \<open>The number of days of the year that precede month \<open>m\<close> (0 = January); \<open>m = 12\<close>
  gives the length of the year.\<close>

definition DaysBeforeMonth :: "bool \<Rightarrow> int \<Rightarrow> int" where
  "DaysBeforeMonth leap m =
     (if m \<le> 0 then 0
      else if m = 1 then 31
      else (if leap then 1 else 0) +
        (if m = 2 then 59 else if m = 3 then 90 else if m = 4 then 120
         else if m = 5 then 151 else if m = 6 then 181 else if m = 7 then 212
         else if m = 8 then 243 else if m = 9 then 273 else if m = 10 then 304
         else if m = 11 then 334 else 365))"

definition DayWithinYear :: "int \<Rightarrow> int" where
  "DayWithinYear d = d - DayFromYear (YearFromDay d)"

definition MonthFromDay :: "int \<Rightarrow> int" where
  "MonthFromDay d =
     (let leap = InLeapYear (YearFromDay d); n = DayWithinYear d
      in if n < DaysBeforeMonth leap 1 then 0
         else if n < DaysBeforeMonth leap 2 then 1
         else if n < DaysBeforeMonth leap 3 then 2
         else if n < DaysBeforeMonth leap 4 then 3
         else if n < DaysBeforeMonth leap 5 then 4
         else if n < DaysBeforeMonth leap 6 then 5
         else if n < DaysBeforeMonth leap 7 then 6
         else if n < DaysBeforeMonth leap 8 then 7
         else if n < DaysBeforeMonth leap 9 then 8
         else if n < DaysBeforeMonth leap 10 then 9
         else if n < DaysBeforeMonth leap 11 then 10
         else 11)"

definition DateFromDay :: "int \<Rightarrow> int" where
  "DateFromDay d =
     DayWithinYear d - DaysBeforeMonth (InLeapYear (YearFromDay d)) (MonthFromDay d) + 1"

text \<open>\<^verbatim>\<open>MakeDay(year, month, date)\<close>: the month may lie outside 0..11 and the date outside
  the month; both carry over, which is what \<^verbatim>\<open>new Date(y, m + 1, 0)\<close> and
  \<^verbatim>\<open>setDate(getDate() - getDay())\<close> rely on.\<close>

definition MakeDay :: "int \<Rightarrow> int \<Rightarrow> int \<Rightarrow> int" where
  "MakeDay year month date =
     (let ym = year + month div 12; mn = month mod 12
      in DayFromYear ym + DaysBeforeMonth (InLeapYear ym) mn + date - 1)"

subsection \<open>The methods of Date that the tracker calls\<close>

definition getFullYear :: "int \<Rightarrow> time \<Rightarrow> int" where
  "getFullYear tz t = YearFromDay (Day (t + tz))"

definition getMonth :: "int \<Rightarrow> time \<Rightarrow> int" where
  "getMonth tz t = MonthFromDay (Day (t + tz))"

definition getDate :: "int \<Rightarrow> time \<Rightarrow> int" where
  "getDate tz t = DateFromDay (Day (t + tz))"

text \<open>\<^verbatim>\<open>getDay()\<close>: 0 is Sunday; 1970-01-01 was a Thursday.\<close>

definition getDay :: "int \<Rightarrow> time \<Rightarrow> int" where
  "getDay tz t = (Day (t + tz) + 4) mod 7"

text \<open>\<^verbatim>\<open>new Date(year, month, date)\<close>: local midnight of that day. A year from 0 to 99
  stands for 1900 + year in this constructor.\<close>

definition new_Date :: "int \<Rightarrow> int \<Rightarrow> int \<Rightarrow> int \<Rightarrow> time" where
  "new_Date tz year month date =
     (let yr = (if 0 \<le> year \<and> year \<le> 99 then 1900 + year else year)
      in MakeDay yr month date * msPerDay - tz)"

text \<open>\<^verbatim>\<open>d.setDate(n)\<close> and \<^verbatim>\<open>d.setMonth(n)\<close> keep the local time of day.\<close>

definition setDate :: "int \<Rightarrow> time \<Rightarrow> int \<Rightarrow> time" where
  "setDate tz t n =
     MakeDay (getFullYear tz t) (getMonth tz t) n * msPerDay + TimeWithinDay (t + tz) - tz"

definition setMonth :: "int \<Rightarrow> time \<Rightarrow> int \<Rightarrow> time" where
  "setMonth tz t n =
     MakeDay (getFullYear tz t) n (getDate tz t) * msPerDay + TimeWithinDay (t + tz) - tz"

subsection \<open>Parsing a date string\<close>

text \<open>
  A meal stores its date as the string a date input yields, \<^verbatim>\<open>YYYY-MM-DD\<close>, and the
  tracker reads it with \<^verbatim>\<open>new Date(meal.date)\<close>. ECMAScript reads this date-only form as
  midnight UTC. The result is \<open>None\<close> for an Invalid Date (time value NaN). The model
  parses the date-only form alone: every other string, and a day the month does not have,
  is \<open>None\<close> here.
\<close>

definition digit :: "char \<Rightarrow> int option" where
  "digit c =
     (let n = (of_char c :: nat) in if 48 \<le> n \<and> n \<le> 57 then Some (int n - 48) else None)"

fun digits :: "string \<Rightarrow> int option" where
  "digits [] = None"
| "digits [c] = digit c"
| "digits cs =
     (case (digits (butlast cs), digit (last cs)) of
        (Some hi, Some lo) \<Rightarrow> Some (10 * hi + lo)
      | _ \<Rightarrow> None)"

definition DaysInMonth :: "int \<Rightarrow> int \<Rightarrow> int" where
  "DaysInMonth y m = MakeDay y (m + 1) 1 - MakeDay y m 1"

definition Date_parse :: "string \<Rightarrow> time option" where
  "Date_parse s =
     (if length s = 10 \<and> s ! 4 = CHR ''-'' \<and> s ! 7 = CHR ''-'' then
        (case (digits (take 4 s), digits (take 2 (drop 5 s)), digits (drop 8 s)) of
           (Some y, Some m, Some d) \<Rightarrow>
             if 1 \<le> m \<and> m \<le> 12 \<and> 1 \<le> d \<and> d \<le> DaysInMonth y (m - 1)
             then Some (MakeDay y (m - 1) d * msPerDay)
             else None
         | _ \<Rightarrow> None)
      else None)"

section \<open>The tracker's data\<close>

text \<open>
  The three collections of \<^verbatim>\<open>class CalorieTracker\<close>, typed as the objects the tracker itself
  builds: a field that holds \<^verbatim>\<open>null\<close> is \<open>None\<close>. Calories are integers
  (\<^verbatim>\<open>parseInt\<close> results), so sums of them are exact.
\<close>

record menu =
  menu_id :: int
  name :: string
  calories :: int

record meal =
  meal_id :: int
  date :: string
  menuId :: "int option"
  menuName :: "string option"
  menuCalories :: "int option"
  customName :: "string option"
  customCalories :: "int option"

text \<open>The user profile holds the values of four form fields.\<close>

record userData =
  age :: string
  currentWeight :: string
  targetWeight :: string
  activityLevel :: string

record goal_config =
  daily :: int
  userData :: "userData option"

text \<open>\<^verbatim>\<open>localStorage\<close> maps a key to a string; the tracker stores JSON text under the keys
  \<^verbatim>\<open>menus\<close>, \<^verbatim>\<open>meals\<close>, \<^verbatim>\<open>userData\<close> and a number under \<^verbatim>\<open>dailyGoal\<close>. The model keeps
  the value that the text serialises.\<close>

datatype stored =
  StoredMenus "menu list"
| StoredMeals "meal list"
| StoredNumber int
| StoredUserData userData

record tracker =
  menus :: "menu list"
  meals :: "meal list"
  goals :: goal_config
  localStorage :: "string \<rightharpoonup> stored"

section \<open>Statistics\<close>

text \<open>\<^verbatim>\<open>this.menus.find((m) => m.id === meal.menuId)\<close>: a \<^verbatim>\<open>null\<close> id equals no menu's id.\<close>

definition find_menu :: "menu list \<Rightarrow> int option \<Rightarrow> menu option" where
  "find_menu ms mid =
     (case mid of None \<Rightarrow> None | Some i \<Rightarrow> find (\<lambda>m. menu_id m = i) ms)"

text \<open>The callback of \<^verbatim>\<open>reduce\<close> in \<^verbatim>\<open>calculateCaloriesForDateRange\<close>. Every comparison
  with an Invalid Date is false, so a meal whose date does not parse adds nothing.\<close>

definition add_meal_calories :: "menu list \<Rightarrow> time \<Rightarrow> time \<Rightarrow> int \<Rightarrow> meal \<Rightarrow> int" where
  "add_meal_calories ms start end' total' meal =
     (case Date_parse (date meal) of
        None \<Rightarrow> total'
      | Some mealDate \<Rightarrow>
          if start \<le> mealDate \<and> mealDate < end' then
            (case customCalories meal of
               Some c \<Rightarrow> total' + c
             | None \<Rightarrow>
                 (case menuCalories meal of
                    Some c \<Rightarrow> total' + c
                  | None \<Rightarrow>
                      (case find_menu ms (menuId meal) of
                         Some m \<Rightarrow> total' + calories m
                       | None \<Rightarrow> total' + 0)))
          else total')"

definition calculateCaloriesForDateRange :: "tracker \<Rightarrow> time \<Rightarrow> time \<Rightarrow> int" where
  "calculateCaloriesForDateRange s start end' =
     foldl (add_meal_calories (menus s) start end') 0 (meals s)"

definition calculateDailyCalories :: "int \<Rightarrow> tracker \<Rightarrow> time \<Rightarrow> int" where
  "calculateDailyCalories tz s d =
     (let dayStart = new_Date tz (getFullYear tz d) (getMonth tz d) (getDate tz d);
          dayEnd = setDate tz dayStart (getDate tz dayStart + 1)
      in calculateCaloriesForDateRange s dayStart dayEnd)"

definition calculateWeeklyCalories :: "int \<Rightarrow> tracker \<Rightarrow> time \<Rightarrow> int" where
  "calculateWeeklyCalories tz s d =
     (let weekStart = setDate tz d (getDate tz d - getDay tz d);
          weekEnd = setDate tz weekStart (getDate tz weekStart + 7)
      in calculateCaloriesForDateRange s weekStart weekEnd)"

definition calculateMonthlyCalories :: "int \<Rightarrow> tracker \<Rightarrow> time \<Rightarrow> int" where
  "calculateMonthlyCalories tz s d =
     (let monthStart = new_Date tz (getFullYear tz d) (getMonth tz d) 1;
          monthEnd = new_Date tz (getFullYear tz d) (getMonth tz d + 1) 0
      in calculateCaloriesForDateRange s monthStart monthEnd)"

text \<open>The period is a string in the source; \<open>Other\<close> is any string that no \<^verbatim>\<open>case\<close> of
  the two \<^verbatim>\<open>switch\<close> statements matches.\<close>

datatype period = Daily | Weekly | Monthly | Other

definition getGoalForPeriod :: "int \<Rightarrow> tracker \<Rightarrow> period \<Rightarrow> time \<Rightarrow> int" where
  "getGoalForPeriod tz s p targetDate =
     (let dailyGoal = daily (goals s)
      in case p of
           Daily \<Rightarrow> dailyGoal
         | Weekly \<Rightarrow> dailyGoal * 7
         | Monthly \<Rightarrow>
             (let daysInMonth =
                    getDate tz (new_Date tz (getFullYear tz targetDate) (getMonth tz targetDate + 1) 0)
              in dailyGoal * daysInMonth)
         | Other \<Rightarrow> dailyGoal)"

text \<open>
  \<^verbatim>\<open>elapsedRatio\<close> and the argument of \<^verbatim>\<open>Math.round\<close> are doubles in the source and
  exact reals here. A division by zero gives NaN or an infinity in JavaScript, never a
  number: \<open>None\<close>. \<^verbatim>\<open>Math.round(x)\<close> is \<open>\<lfloor>x + 1/2\<rfloor>\<close>.
\<close>

record stats =
  total :: int
  goal :: int
  difference :: int
  startDate :: time
  endDate :: time
  prediction :: int
  elapsedRatio :: "real option"

definition js_divide :: "int \<Rightarrow> int \<Rightarrow> real option" where
  "js_divide a b = (if b = 0 then None else Some (real_of_int a / real_of_int b))"

definition Math_round :: "real \<Rightarrow> int" where
  "Math_round x = \<lfloor>x + 1 / 2\<rfloor>"

text \<open>The \<^verbatim>\<open>switch\<close> of \<^verbatim>\<open>calculateStats\<close>: the window, the total and the goal.\<close>

definition stats_window :: "int \<Rightarrow> tracker \<Rightarrow> period \<Rightarrow> time \<Rightarrow> stats" where
  "stats_window tz s p targetDate =
     (let stats0 = \<lparr>total = 0, goal = 0, difference = 0, startDate = targetDate,
                     endDate = targetDate, prediction = 0, elapsedRatio = Some 0\<rparr>
      in case p of
           Daily \<Rightarrow>
             (let start = new_Date tz (getFullYear tz targetDate) (getMonth tz targetDate)
                            (getDate tz targetDate)
              in stats0\<lparr>startDate := start,
                        endDate := setDate tz start (getDate tz start + 1),
                        total := calculateDailyCalories tz s targetDate,
                        goal := getGoalForPeriod tz s p targetDate\<rparr>)
         | Weekly \<Rightarrow>
             (let start = setDate tz targetDate (getDate tz targetDate - getDay tz targetDate)
              in stats0\<lparr>startDate := start,
                        endDate := setDate tz start (getDate tz start + 7),
                        total := calculateWeeklyCalories tz s targetDate,
                        goal := getGoalForPeriod tz s p targetDate\<rparr>)
         | Monthly \<Rightarrow>
             stats0\<lparr>startDate := new_Date tz (getFullYear tz targetDate) (getMonth tz targetDate) 1,
                    endDate := new_Date tz (getFullYear tz targetDate) (getMonth tz targetDate + 1) 0,
                    total := calculateMonthlyCalories tz s targetDate,
                    goal := getGoalForPeriod tz s p targetDate\<rparr>
         | Other \<Rightarrow> stats0)"

text \<open>\<^verbatim>\<open>calculateStats(period, targetDate)\<close>, with the wall clock \<open>now\<close> that
  \<^verbatim>\<open>new Date()\<close> reads.\<close>

definition calculateStats :: "int \<Rightarrow> time \<Rightarrow> tracker \<Rightarrow> period \<Rightarrow> time \<Rightarrow> stats" where
  "calculateStats tz now s p targetDate =
     (let st = stats_window tz s p targetDate;
          st = st\<lparr>difference := goal st - total st\<rparr>;
          totalMs = endDate st - startDate st;
          elapsedMs = min (now - startDate st) totalMs;
          st = st\<lparr>elapsedRatio := js_divide elapsedMs totalMs\<rparr>
      in case elapsedRatio st of
           Some r \<Rightarrow>
             if p \<noteq> Daily \<and> r > 0
             then st\<lparr>prediction := Math_round (real_of_int (total st) / r)\<rparr>
             else st
         | None \<Rightarrow> st)"

section \<open>Persistence and the mutating operations\<close>

text \<open>Every operation takes the tracker and returns it updated. \<^verbatim>\<open>Date.now()\<close> is the
  argument \<open>now\<close>.\<close>

definition saveMenus :: "tracker \<Rightarrow> tracker" where
  "saveMenus s = s\<lparr>localStorage := (localStorage s)(''menus'' \<mapsto> StoredMenus (menus s))\<rparr>"

definition saveMeals :: "tracker \<Rightarrow> tracker" where
  "saveMeals s = s\<lparr>localStorage := (localStorage s)(''meals'' \<mapsto> StoredMeals (meals s))\<rparr>"

text \<open>\<^verbatim>\<open>addMenu(name, calories)\<close>; the calories arrive as the digits of a number input and
  are taken here after \<^verbatim>\<open>parseInt\<close>.\<close>

definition addMenu :: "time \<Rightarrow> string \<Rightarrow> int \<Rightarrow> tracker \<Rightarrow> menu \<times> tracker" where
  "addMenu now nm cal s =
     (let menu = \<lparr>menu_id = now, name = nm, calories = cal\<rparr>
      in (menu, saveMenus (s\<lparr>menus := menus s @ [menu]\<rparr>)))"

definition deleteMenu :: "int \<Rightarrow> tracker \<Rightarrow> tracker" where
  "deleteMenu i s = saveMenus (s\<lparr>menus := filter (\<lambda>menu. menu_id menu \<noteq> i) (menus s)\<rparr>)"

text \<open>\<^verbatim>\<open>if (menuId)\<close>: \<^verbatim>\<open>null\<close> and 0 are falsy.\<close>

definition truthy_id :: "int option \<Rightarrow> bool" where
  "truthy_id i = (case i of None \<Rightarrow> False | Some n \<Rightarrow> n \<noteq> 0)"

text \<open>\<^verbatim>\<open>addMeal(date, menuId, customName, customCalories)\<close>. The custom calories are
  \<open>None\<close> for \<^verbatim>\<open>null\<close> or an empty field and the parsed number otherwise.\<close>

definition addMeal ::
  "time \<Rightarrow> string \<Rightarrow> int option \<Rightarrow> string option \<Rightarrow> int option \<Rightarrow> tracker \<Rightarrow> meal \<times> tracker" where
  "addMeal now d mid cname ccal s =
     (let meal =
        (if truthy_id mid then
           (let menu = find_menu (menus s) mid
            in \<lparr>meal_id = now, date = d, menuId = mid,
                menuName = (case menu of Some m \<Rightarrow> Some (name m) | None \<Rightarrow> None),
                menuCalories = (case menu of Some m \<Rightarrow> Some (calories m) | None \<Rightarrow> None),
                customName = None, customCalories = None\<rparr>)
         else
           \<lparr>meal_id = now, date = d, menuId = None, menuName = None, menuCalories = None,
            customName = cname, customCalories = ccal\<rparr>)
      in (meal, saveMeals (s\<lparr>meals := meals s @ [meal]\<rparr>)))"

definition deleteMeal :: "int \<Rightarrow> tracker \<Rightarrow> tracker" where
  "deleteMeal i s = saveMeals (s\<lparr>meals := filter (\<lambda>meal. meal_id meal \<noteq> i) (meals s)\<rparr>)"

text \<open>\<^verbatim>\<open>saveGoals(daily, userData = null)\<close>; the daily goal is taken after \<^verbatim>\<open>parseInt\<close>.\<close>

definition saveGoals :: "int \<Rightarrow> userData option \<Rightarrow> tracker \<Rightarrow> tracker" where
  "saveGoals d ud s =
     (let s = s\<lparr>goals := (goals s)\<lparr>daily := d\<rparr>\<rparr>;
          s = s\<lparr>localStorage := (localStorage s)(''dailyGoal'' \<mapsto> StoredNumber d)\<rparr>
      in case ud of
           None \<Rightarrow> s
         | Some u \<Rightarrow>
             (let s = s\<lparr>goals := (goals s)\<lparr>userData := Some u\<rparr>\<rparr>
              in s\<lparr>localStorage := (localStorage s)(''userData'' \<mapsto> StoredUserData u)\<rparr>))"

text \<open>The goals that the constructor builds from storage at the next start: a missing or
  zero \<^verbatim>\<open>dailyGoal\<close> gives 2000, a missing \<^verbatim>\<open>userData\<close> gives \<^verbatim>\<open>null\<close>.\<close>

definition stored_goals :: "(string \<rightharpoonup> stored) \<Rightarrow> goal_config" where
  "stored_goals st =
     \<lparr>daily = (case st ''dailyGoal'' of
                 Some (StoredNumber n) \<Rightarrow> if n = 0 then 2000 else n
               | _ \<Rightarrow> 2000),
      userData = (case st ''userData'' of Some (StoredUserData u) \<Rightarrow> Some u | _ \<Rightarrow> None)\<rparr>"

section \<open>Archival\<close>

definition sixMonthsAgo :: "int \<Rightarrow> time \<Rightarrow> time" where
  "sixMonthsAgo tz now = setMonth tz now (getMonth tz now - 6)"

text \<open>\<^verbatim>\<open>new Date(meal.date) < sixMonthsAgo\<close> and \<^verbatim>\<open>new Date(meal.date) >= sixMonthsAgo\<close>:
  both are false for an Invalid Date.\<close>

definition date_before :: "time \<Rightarrow> meal \<Rightarrow> bool" where
  "date_before cutoff meal =
     (case Date_parse (date meal) of None \<Rightarrow> False | Some t \<Rightarrow> t < cutoff)"

definition date_not_before :: "time \<Rightarrow> meal \<Rightarrow> bool" where
  "date_not_before cutoff meal =
     (case Date_parse (date meal) of None \<Rightarrow> False | Some t \<Rightarrow> t \<ge> cutoff)"

definition getOldData :: "int \<Rightarrow> time \<Rightarrow> tracker \<Rightarrow> meal list" where
  "getOldData tz now s = filter (date_before (sixMonthsAgo tz now)) (meals s)"

definition removeOldData :: "int \<Rightarrow> time \<Rightarrow> tracker \<Rightarrow> tracker" where
  "removeOldData tz now s =
     saveMeals (s\<lparr>meals := filter (date_not_before (sixMonthsAgo tz now)) (meals s)\<rparr>)"

section \<open>Export and import\<close>

text \<open>
  The export file is the JSON text of \<^verbatim>\<open>{data, exportedAt}\<close>. The model keeps what the text
  holds after \<^verbatim>\<open>JSON.parse\<close>, as far as \<^verbatim>\<open>importData\<close> can tell it apart:
  \<^item> \<open>file_data\<close> is \<open>None\<close> when \<^verbatim>\<open>data\<close> is missing or falsy (\<^verbatim>\<open>null\<close>); a truthy
    \<^verbatim>\<open>data\<close> that holds no section is a payload of three \<open>None\<close>;
  \<^item> \<open>data_menus\<close> and \<open>data_meals\<close> are \<open>None\<close> when the key is missing or holds anything
    but an array; the entries of an array are menus and meals of the shape above;
  \<^item> \<open>data_goals\<close> is \<open>None\<close> when \<^verbatim>\<open>goals\<close> is missing or falsy, and \<open>goals_daily\<close> is
    \<open>None\<close> when \<^verbatim>\<open>daily\<close> is missing or not a number;
  \<^item> the key \<^verbatim>\<open>userData\<close> of the goals may be missing (\<open>None\<close>), hold \<^verbatim>\<open>null\<close>
    (\<open>Some None\<close>) or hold a profile.
\<close>

record imported_goals =
  goals_daily :: "int option"
  goals_userData :: "userData option option"

record import_payload =
  data_menus :: "menu list option"
  data_meals :: "meal list option"
  data_goals :: "imported_goals option"

record import_file =
  file_data :: "import_payload option"
  exportedAt :: "string option"

subsection \<open>\<^verbatim>\<open>toISOString\<close> and \<^verbatim>\<open>exportData\<close>\<close>





subsection \<open>\<^verbatim>\<open>validateImportData\<close>, \<^verbatim>\<open>mergeData\<close>, \<^verbatim>\<open>importData\<close>\<close>

record details =
  details_menus :: bool
  details_meals :: bool
  details_goals :: bool

record validation =
  isValid :: bool
  details :: details

definition validateImportData :: "import_payload \<Rightarrow> validation" where
  "validateImportData d =
     (let ds = \<lparr>details_menus = (data_menus d \<noteq> None),
                details_meals = (data_meals d \<noteq> None),
                details_goals = (case data_goals d of
                                   None \<Rightarrow> False
                                 | Some g \<Rightarrow> goals_daily g \<noteq> None)\<rparr>
      in \<lparr>isValid = (details_menus ds \<or> details_meals ds \<or> details_goals ds),
          details = ds\<rparr>)"

text \<open>\<^verbatim>\<open>mergeData(currentData, newData)\<close> on two arrays; \<open>key\<close> reads the \<^verbatim>\<open>id\<close> of an
  entry. The search runs over \<^verbatim>\<open>merged\<close>, which already holds the items pushed before.
  \<^verbatim>\<open>importData\<close> calls it on arrays alone, so the last line of the source,
  \<^verbatim>\<open>return newData\<close>, is never reached from there.\<close>

definition merge_item :: "('a \<Rightarrow> int) \<Rightarrow> 'a list \<Rightarrow> 'a \<Rightarrow> 'a list" where
  "merge_item key merged item =
     (case find (\<lambda>existing. key existing = key item) merged of
        None \<Rightarrow> merged @ [item]
      | Some _ \<Rightarrow> merged)"

definition mergeData :: "('a \<Rightarrow> int) \<Rightarrow> 'a list \<Rightarrow> 'a list \<Rightarrow> 'a list" where
  "mergeData key currentData newData = foldl (merge_item key) currentData newData"

text \<open>The spread \<^verbatim>\<open>{ ...this.goals, ...data.goals }\<close> and the plain assignment
  \<^verbatim>\<open>this.goals = data.goals\<close>. Both run only after validation found a numeric
  \<^verbatim>\<open>daily\<close>. A goals object without the key \<^verbatim>\<open>userData\<close> reads as \<^verbatim>\<open>undefined\<close>
  there, which the tracker treats as \<^verbatim>\<open>null\<close>.\<close>

definition spread_goals :: "goal_config \<Rightarrow> imported_goals \<Rightarrow> goal_config" where
  "spread_goals cur g =
     \<lparr>daily = (case goals_daily g of Some n \<Rightarrow> n | None \<Rightarrow> daily cur),
      userData = (case goals_userData g of Some u \<Rightarrow> u | None \<Rightarrow> userData cur)\<rparr>"

definition assign_goals :: "goal_config \<Rightarrow> imported_goals \<Rightarrow> goal_config" where
  "assign_goals cur g =
     \<lparr>daily = (case goals_daily g of Some n \<Rightarrow> n | None \<Rightarrow> daily cur),
      userData = (case goals_userData g of Some u \<Rightarrow> u | None \<Rightarrow> None)\<rparr>"

record import_types =
  types_menus :: bool
  types_meals :: bool
  types_goals :: bool

record import_options =
  merge :: bool
  types :: import_types

text \<open>The two errors that \<^verbatim>\<open>importData\<close> throws itself, and the one \<^verbatim>\<open>JSON.parse\<close>
  throws on text that is not JSON. The \<^verbatim>\<open>catch\<close> turns each into the result
  \<^verbatim>\<open>{ success: false, error: error.message }\<close>.\<close>

datatype import_error = JsonSyntaxError | InvalidImportFile | InvalidImportFormat

record imported =
  imported_menus :: bool
  imported_meals :: bool
  imported_goals :: bool

text \<open>\<^verbatim>\<open>!importedData.exportedAt\<close>: a missing field and the empty string are falsy.\<close>

definition falsy_string :: "string option \<Rightarrow> bool" where
  "falsy_string x = (case x of None \<Rightarrow> True | Some str \<Rightarrow> str = [])"

definition import_menus :: "import_payload \<Rightarrow> import_options \<Rightarrow> tracker \<Rightarrow> tracker" where
  "import_menus d opts s =
     (case data_menus d of
        None \<Rightarrow> s
      | Some ms \<Rightarrow>
          saveMenus (s\<lparr>menus := (if merge opts then mergeData menu_id (menus s) ms else ms)\<rparr>))"

definition import_meals :: "import_payload \<Rightarrow> import_options \<Rightarrow> tracker \<Rightarrow> tracker" where
  "import_meals d opts s =
     (case data_meals d of
        None \<Rightarrow> s
      | Some ms \<Rightarrow>
          saveMeals (s\<lparr>meals := (if merge opts then mergeData meal_id (meals s) ms else ms)\<rparr>))"

definition import_goals :: "import_payload \<Rightarrow> import_options \<Rightarrow> tracker \<Rightarrow> tracker" where
  "import_goals d opts s =
     (case data_goals d of
        None \<Rightarrow> s
      | Some g \<Rightarrow>
          (let s = s\<lparr>goals := (if merge opts then spread_goals (goals s) g
                                else assign_goals (goals s) g)\<rparr>
           in s\<lparr>localStorage :=
                  (localStorage s)(''dailyGoal'' \<mapsto> StoredNumber (daily (goals s)))\<rparr>))"

text \<open>\<^verbatim>\<open>importData(file, options)\<close>. The file is \<open>None\<close> when its text is not JSON.\<close>

definition importData ::
  "import_file option \<Rightarrow> import_options \<Rightarrow> tracker \<Rightarrow> (import_error + imported) \<times> tracker" where
  "importData file opts s =
     (case file of
        None \<Rightarrow> (Inl JsonSyntaxError, s)
      | Some importedData \<Rightarrow>
          (case file_data importedData of
             None \<Rightarrow> (Inl InvalidImportFile, s)
           | Some d \<Rightarrow>
               if falsy_string (exportedAt importedData) then (Inl InvalidImportFile, s)
               else
                 (let v = validateImportData d
                  in if \<not> isValid v then (Inl InvalidImportFormat, s)
                     else
                       (let s = (if details_menus (details v) \<and> types_menus (types opts)
                                 then import_menus d opts s else s);
                            s = (if details_meals (details v) \<and> types_meals (types opts)
                                 then import_meals d opts s else s);
                            s = (if details_goals (details v) \<and> types_goals (types opts)
                                 then import_goals d opts s else s)
                        in (Inr \<lparr>imported_menus =
                                   (details_menus (details v) \<and> types_menus (types opts)),
                                 imported_meals =
                                   (details_meals (details v) \<and> types_meals (types opts)),
                                 imported_goals =
                                   (details_goals (details v) \<and> types_goals (types opts))\<rparr>,
                            s)))))"

section \<open>Meal records that lack fields\<close>

text \<open>
  The records above hold every field, as \<^verbatim>\<open>addMeal\<close> writes them. A record read from
  \<^verbatim>\<open>localStorage\<close> or from an import file may lack a field: older records hold
  \<^verbatim>\<open>{id, date, menuId}\<close> alone, which the loop of the constructor and the last branch of
  \<^verbatim>\<open>calculateCaloriesForDateRange\<close> are written for. Reading a missing field gives
  \<^verbatim>\<open>undefined\<close>, and \<^verbatim>\<open>undefined !== null\<close> is true. A total is a JavaScript number:
  \<open>None\<close> is NaN. \<^verbatim>\<open>total + undefined\<close> is NaN, \<^verbatim>\<open>total + null\<close> is \<^verbatim>\<open>total\<close>, and NaN
  plus anything is NaN.
\<close>

datatype 'a field = Undefined | Null | Value 'a

record stored_meal =
  stored_id :: int
  stored_date :: string
  stored_menuId :: "int field"
  stored_menuName :: "string field"
  stored_menuCalories :: "int field"
  stored_customName :: "string field"
  stored_customCalories :: "int field"

definition plus_field :: "int option \<Rightarrow> int field \<Rightarrow> int option" where
  "plus_field total' x =
     (case total' of
        None \<Rightarrow> None
      | Some a \<Rightarrow> (case x of Undefined \<Rightarrow> None | Null \<Rightarrow> Some a | Value b \<Rightarrow> Some (a + b)))"

text \<open>\<^verbatim>\<open>if (meal.menuId ...)\<close> and \<^verbatim>\<open>this.menus.find((m) => m.id === meal.menuId)\<close> on
  such a record.\<close>

definition truthy_field :: "int field \<Rightarrow> bool" where
  "truthy_field x = (case x of Value n \<Rightarrow> n \<noteq> 0 | _ \<Rightarrow> False)"

definition find_stored_menu :: "menu list \<Rightarrow> int field \<Rightarrow> menu option" where
  "find_stored_menu ms mid =
     (case mid of Value i \<Rightarrow> find (\<lambda>m. menu_id m = i) ms | _ \<Rightarrow> None)"

text \<open>The body of the loop in the constructor, which fills \<^verbatim>\<open>menuName\<close> and
  \<^verbatim>\<open>menuCalories\<close> of a record that lacks one of them.\<close>

definition backfill :: "menu list \<Rightarrow> stored_meal \<Rightarrow> stored_meal" where
  "backfill ms meal =
     (if truthy_field (stored_menuId meal)
         \<and> (stored_menuName meal = Undefined \<or> stored_menuCalories meal = Undefined)
      then (case find_stored_menu ms (stored_menuId meal) of
              Some menu \<Rightarrow> meal\<lparr>stored_menuName := Value (name menu),
                                 stored_menuCalories := Value (calories menu)\<rparr>
            | None \<Rightarrow> meal)
      else meal)"

text \<open>The callback of \<^verbatim>\<open>reduce\<close> and \<^verbatim>\<open>calculateCaloriesForDateRange\<close> on such records.\<close>

definition add_stored_calories ::
  "menu list \<Rightarrow> time \<Rightarrow> time \<Rightarrow> int option \<Rightarrow> stored_meal \<Rightarrow> int option" where
  "add_stored_calories ms start end' total' meal =
     (case Date_parse (stored_date meal) of
        None \<Rightarrow> total'
      | Some mealDate \<Rightarrow>
          if start \<le> mealDate \<and> mealDate < end' then
            (if stored_customCalories meal \<noteq> Null
             then plus_field total' (stored_customCalories meal)
             else if stored_menuCalories meal \<noteq> Null
             then plus_field total' (stored_menuCalories meal)
             else (case find_stored_menu ms (stored_menuId meal) of
                     Some menu \<Rightarrow> plus_field total' (Value (calories menu))
                   | None \<Rightarrow> plus_field total' (Value 0)))
          else total')"

definition stored_range_total ::
  "menu list \<Rightarrow> stored_meal list \<Rightarrow> time \<Rightarrow> time \<Rightarrow> int option" where
  "stored_range_total ms ls start end' = foldl (add_stored_calories ms start end') (Some 0) ls"

text \<open>A record that holds every field, seen as a stored record.\<close>

definition to_field :: "'a option \<Rightarrow> 'a field" where
  "to_field x = (case x of None \<Rightarrow> Null | Some v \<Rightarrow> Value v)"

definition stored_of :: "meal \<Rightarrow> stored_meal" where
  "stored_of meal =
     \<lparr>stored_id = meal_id meal, stored_date = date meal,
      stored_menuId = to_field (menuId meal), stored_menuName = to_field (menuName meal),
      stored_menuCalories = to_field (menuCalories meal),
      stored_customName = to_field (customName meal),
      stored_customCalories = to_field (customCalories meal)\<rparr>"

section \<open>Import of arrays that hold \<^verbatim>\<open>null\<close>, into a store that may refuse\<close>

text \<open>
  \<^verbatim>\<open>importData\<close> above takes arrays of menus and meals and a store that accepts every
  write. An import file is any JSON text, and its arrays may hold \<^verbatim>\<open>null\<close>; reading
  \<^verbatim>\<open>.id\<close> of \<^verbatim>\<open>null\<close> throws a TypeError. \<^verbatim>\<open>localStorage.setItem\<close> throws a
  QuotaExceededError when the store is full. Both are thrown inside the \<^verbatim>\<open>try\<close> of
  \<^verbatim>\<open>importData\<close>, after the sections before them were assigned and saved. The model below
  has both: an entry of an array is \<open>None\<close> for \<^verbatim>\<open>null\<close>, and \<open>accepts\<close> tells whether
  the store, as it is, takes a value under a key.
\<close>

datatype raw_stored =
  RawMenus "menu option list"
| RawMeals "meal option list"
| RawNumber int
| RawUserData userData

record raw_tracker =
  raw_menus :: "menu option list"
  raw_meals :: "meal option list"
  raw_goals :: goal_config
  raw_localStorage :: "string \<rightharpoonup> raw_stored"

record raw_payload =
  payload_menus :: "menu option list option"
  payload_meals :: "meal option list option"
  payload_goals :: "imported_goals option"

record raw_file =
  raw_file_data :: "raw_payload option"
  raw_exportedAt :: "string option"

type_synonym store_policy = "(string \<rightharpoonup> raw_stored) \<Rightarrow> string \<Rightarrow> raw_stored \<Rightarrow> bool"

text \<open>What the \<^verbatim>\<open>catch\<close> of \<^verbatim>\<open>importData\<close> can catch.\<close>

datatype caught = Thrown import_error | TypeError | QuotaExceededError

text \<open>\<^verbatim>\<open>merged.find((existing) => existing.id === item.id)\<close>: the callback runs on the
  entries of \<^verbatim>\<open>merged\<close> in order until one matches, and reads \<^verbatim>\<open>existing.id\<close> and
  \<^verbatim>\<open>item.id\<close> each time. The result tells whether an entry was found.\<close>

fun find_entry :: "('a \<Rightarrow> int) \<Rightarrow> 'a option list \<Rightarrow> 'a option \<Rightarrow> caught + bool" where
  "find_entry key [] item = Inr False"
| "find_entry key (existing # rest) item =
     (case existing of
        None \<Rightarrow> Inl TypeError
      | Some e \<Rightarrow>
          (case item of
             None \<Rightarrow> Inl TypeError
           | Some i \<Rightarrow> if key e = key i then Inr True else find_entry key rest item))"

text \<open>The \<^verbatim>\<open>forEach\<close> of \<^verbatim>\<open>mergeData\<close>: an exception ends it.\<close>

fun merge_entries ::
  "('a \<Rightarrow> int) \<Rightarrow> 'a option list \<Rightarrow> 'a option list \<Rightarrow> caught + 'a option list" where
  "merge_entries key merged [] = Inr merged"
| "merge_entries key merged (item # items) =
     (case find_entry key merged item of
        Inl e \<Rightarrow> Inl e
      | Inr found \<Rightarrow> merge_entries key (if found then merged else merged @ [item]) items)"

text \<open>A step of the import returns the exception it threw, if any, and the tracker as it
  was at that moment.\<close>

definition saveMenus_raw :: "store_policy \<Rightarrow> raw_tracker \<Rightarrow> caught option \<times> raw_tracker" where
  "saveMenus_raw accepts s =
     (if accepts (raw_localStorage s) ''menus'' (RawMenus (raw_menus s))
      then (None, s\<lparr>raw_localStorage := (raw_localStorage s)(''menus'' \<mapsto> RawMenus (raw_menus s))\<rparr>)
      else (Some QuotaExceededError, s))"

definition saveMeals_raw :: "store_policy \<Rightarrow> raw_tracker \<Rightarrow> caught option \<times> raw_tracker" where
  "saveMeals_raw accepts s =
     (if accepts (raw_localStorage s) ''meals'' (RawMeals (raw_meals s))
      then (None, s\<lparr>raw_localStorage := (raw_localStorage s)(''meals'' \<mapsto> RawMeals (raw_meals s))\<rparr>)
      else (Some QuotaExceededError, s))"

definition import_menus_raw ::
  "store_policy \<Rightarrow> raw_payload \<Rightarrow> import_options \<Rightarrow> raw_tracker \<Rightarrow> caught option \<times> raw_tracker" where
  "import_menus_raw accepts d opts s =
     (case payload_menus d of
        None \<Rightarrow> (None, s)
      | Some ms \<Rightarrow>
          (case (if merge opts then merge_entries menu_id (raw_menus s) ms else Inr ms) of
             Inl e \<Rightarrow> (Some e, s)
           | Inr merged \<Rightarrow> saveMenus_raw accepts (s\<lparr>raw_menus := merged\<rparr>)))"

definition import_meals_raw ::
  "store_policy \<Rightarrow> raw_payload \<Rightarrow> import_options \<Rightarrow> raw_tracker \<Rightarrow> caught option \<times> raw_tracker" where
  "import_meals_raw accepts d opts s =
     (case payload_meals d of
        None \<Rightarrow> (None, s)
      | Some ms \<Rightarrow>
          (case (if merge opts then merge_entries meal_id (raw_meals s) ms else Inr ms) of
             Inl e \<Rightarrow> (Some e, s)
           | Inr merged \<Rightarrow> saveMeals_raw accepts (s\<lparr>raw_meals := merged\<rparr>)))"

definition import_goals_raw ::
  "store_policy \<Rightarrow> raw_payload \<Rightarrow> import_options \<Rightarrow> raw_tracker \<Rightarrow> caught option \<times> raw_tracker" where
  "import_goals_raw accepts d opts s =
     (case payload_goals d of
        None \<Rightarrow> (None, s)
      | Some g \<Rightarrow>
          (let s = s\<lparr>raw_goals := (if merge opts then spread_goals (raw_goals s) g
                                    else assign_goals (raw_goals s) g)\<rparr>
           in if accepts (raw_localStorage s) ''dailyGoal'' (RawNumber (daily (raw_goals s)))
              then (None, s\<lparr>raw_localStorage :=
                      (raw_localStorage s)(''dailyGoal'' \<mapsto> RawNumber (daily (raw_goals s)))\<rparr>)
              else (Some QuotaExceededError, s)))"

definition validate_raw :: "raw_payload \<Rightarrow> validation" where
  "validate_raw d =
     (let ds = \<lparr>details_menus = (payload_menus d \<noteq> None),
                details_meals = (payload_meals d \<noteq> None),
                details_goals = (case payload_goals d of
                                   None \<Rightarrow> False
                                 | Some g \<Rightarrow> goals_daily g \<noteq> None)\<rparr>
      in \<lparr>isValid = (details_menus ds \<or> details_meals ds \<or> details_goals ds),
          details = ds\<rparr>)"

text \<open>The three sections in the order of the source; the first exception ends the
  \<^verbatim>\<open>try\<close>.\<close>

definition import_sections ::
  "store_policy \<Rightarrow> raw_payload \<Rightarrow> import_options \<Rightarrow> raw_tracker \<Rightarrow> caught option \<times> raw_tracker" where
  "import_sections accepts d opts s =
     (let v = validate_raw d
      in case (if details_menus (details v) \<and> types_menus (types opts)
               then import_menus_raw accepts d opts s else (None, s)) of
           (Some e, s) \<Rightarrow> (Some e, s)
         | (None, s) \<Rightarrow>
             (case (if details_meals (details v) \<and> types_meals (types opts)
                    then import_meals_raw accepts d opts s else (None, s)) of
                (Some e, s) \<Rightarrow> (Some e, s)
              | (None, s) \<Rightarrow>
                  (if details_goals (details v) \<and> types_goals (types opts)
                   then import_goals_raw accepts d opts s else (None, s))))"

text \<open>\<^verbatim>\<open>importData(file, options)\<close> with its \<^verbatim>\<open>try\<close> and \<^verbatim>\<open>catch\<close>: the result is
  \<open>Inl\<close> of what was caught, for \<^verbatim>\<open>{ success: false, error: error.message }\<close>.\<close>

definition importData_raw ::
  "store_policy \<Rightarrow> raw_file option \<Rightarrow> import_options \<Rightarrow> raw_tracker
     \<Rightarrow> (caught + imported) \<times> raw_tracker" where
  "importData_raw accepts file opts s =
     (case file of
        None \<Rightarrow> (Inl (Thrown JsonSyntaxError), s)
      | Some importedData \<Rightarrow>
          (case raw_file_data importedData of
             None \<Rightarrow> (Inl (Thrown InvalidImportFile), s)
           | Some d \<Rightarrow>
               if falsy_string (raw_exportedAt importedData)
               then (Inl (Thrown InvalidImportFile), s)
               else
                 (let v = validate_raw d
                  in if \<not> isValid v then (Inl (Thrown InvalidImportFormat), s)
                     else
                       (case import_sections accepts d opts s of
                          (Some e, s) \<Rightarrow> (Inl e, s)
                        | (None, s) \<Rightarrow>
                            (Inr \<lparr>imported_menus =
                                    (details_menus (details v) \<and> types_menus (types opts)),
                                  imported_meals =
                                    (details_meals (details v) \<and> types_meals (types opts)),
                                  imported_goals =
                                    (details_goals (details v) \<and> types_goals (types opts))\<rparr>,
                             s)))))"

text \<open>A tracker and a file of the first model, seen in this one.\<close>

definition raw_of_stored :: "stored \<Rightarrow> raw_stored" where
  "raw_of_stored v =
     (case v of
        StoredMenus ms \<Rightarrow> RawMenus (map Some ms)
      | StoredMeals ls \<Rightarrow> RawMeals (map Some ls)
      | StoredNumber n \<Rightarrow> RawNumber n
      | StoredUserData u \<Rightarrow> RawUserData u)"

definition raw_of_tracker :: "tracker \<Rightarrow> raw_tracker" where
  "raw_of_tracker s =
     \<lparr>raw_menus = map Some (menus s), raw_meals = map Some (meals s), raw_goals = goals s,
      raw_localStorage = (\<lambda>k. map_option raw_of_stored (localStorage s k))\<rparr>"

definition raw_of_file :: "import_file \<Rightarrow> raw_file" where
  "raw_of_file f =
     \<lparr>raw_file_data =
        map_option (\<lambda>d. \<lparr>payload_menus = map_option (map Some) (data_menus d),
                          payload_meals = map_option (map Some) (data_meals d),
                          payload_goals = data_goals d\<rparr>) (file_data f),
      raw_exportedAt = exportedAt f\<rparr>"

text \<open>The store that accepts every write.\<close>

definition accept_all :: store_policy where
  "accept_all st k v = True"

section \<open>Properties as the specification words them\<close>

text \<open>The effective calories of a meal: the custom value, else the snapshot of the menu,
  else the calories of the current menu with the meal's \<^verbatim>\<open>menuId\<close>, else 0.\<close>

definition effective_calories :: "menu list \<Rightarrow> meal \<Rightarrow> int" where
  "effective_calories ms meal =
     (case customCalories meal of
        Some c \<Rightarrow> c
      | None \<Rightarrow>
          (case menuCalories meal of
             Some c \<Rightarrow> c
           | None \<Rightarrow> (case find_menu ms (menuId meal) of Some m \<Rightarrow> calories m | None \<Rightarrow> 0)))"

text \<open>The date of the meal falls in \<open>[start, end)\<close>.\<close>

definition in_window :: "time \<Rightarrow> time \<Rightarrow> meal \<Rightarrow> bool" where
  "in_window start end' meal =
     (case Date_parse (date meal) of None \<Rightarrow> False | Some t \<Rightarrow> start \<le> t \<and> t < end')"

text \<open>A ratio clamped to \<open>[0, 1]\<close>.\<close>

definition in_unit_interval :: "real option \<Rightarrow> bool" where
  "in_unit_interval x = (case x of None \<Rightarrow> False | Some r \<Rightarrow> 0 \<le> r \<and> r \<le> 1)"





text \<open>A collection is persisted when the store holds it in full under its key.\<close>

definition menus_persisted :: "tracker \<Rightarrow> bool" where
  "menus_persisted s = (localStorage s ''menus'' = Some (StoredMenus (menus s)))"

definition meals_persisted :: "tracker \<Rightarrow> bool" where
  "meals_persisted s = (localStorage s ''meals'' = Some (StoredMeals (meals s)))"

definition daily_persisted :: "tracker \<Rightarrow> bool" where
  "daily_persisted s = (localStorage s ''dailyGoal'' = Some (StoredNumber (daily (goals s))))"

definition userData_persisted :: "tracker \<Rightarrow> bool" where
  "userData_persisted s =
     (case userData (goals s) of
        None \<Rightarrow> True
      | Some u \<Rightarrow> localStorage s ''userData'' = Some (StoredUserData u))"

section \<open>Concrete inputs\<close>

text \<open>Japan Standard Time, UTC+9 all year.\<close>

definition JST :: int where
  "JST = 32400000"

definition custom_meal :: "int \<Rightarrow> string \<Rightarrow> int \<Rightarrow> meal" where
  "custom_meal i d c =
     \<lparr>meal_id = i, date = d, menuId = None, menuName = None, menuCalories = None,
      customName = Some ''lunch'', customCalories = Some c\<rparr>"

definition fresh_tracker :: "menu list \<Rightarrow> meal list \<Rightarrow> tracker" where
  "fresh_tracker ms ls =
     \<lparr>menus = ms, meals = ls, goals = \<lparr>daily = 2000, userData = None\<rparr>,
      localStorage = Map.empty\<rparr>"

text \<open>Noon of 15 January 2024 and of the next day, local time in Japan.\<close>

definition noon_jan15 :: time where
  "noon_jan15 = new_Date JST 2024 0 15 + 43200000"

definition noon_jan16 :: time where
  "noon_jan16 = new_Date JST 2024 0 16 + 43200000"

text \<open>Noon of 15 August 2024, local time in Japan.\<close>

definition noon_aug15 :: time where
  "noon_aug15 = new_Date JST 2024 7 15 + 43200000"

definition rice :: menu where
  "rice = \<lparr>menu_id = 7, name = ''rice'', calories = 200\<rparr>"


text \<open>A meal linked to a menu, with the snapshot of the calories or without one.\<close>

definition menu_meal :: "int \<Rightarrow> string \<Rightarrow> int \<Rightarrow> int option \<Rightarrow> meal" where
  "menu_meal i d mid snapshot =
     \<lparr>meal_id = i, date = d, menuId = Some mid, menuName = None, menuCalories = snapshot,
      customName = None, customCalories = None\<rparr>"


definition profile :: userData where
  "profile = \<lparr>age = ''30'', currentWeight = ''60'', targetWeight = ''65'',
              activityLevel = ''1.5''\<rparr>"

definition replace_all :: import_options where
  "replace_all =
     \<lparr>merge = False, types = \<lparr>types_menus = True, types_meals = True, types_goals = True\<rparr>\<rparr>"




definition empty_menus_file :: import_file where
  "empty_menus_file =
     \<lparr>file_data = Some \<lparr>data_menus = Some [], data_meals = None, data_goals = None\<rparr>,
      exportedAt = Some ''2024-01-15T03:00:00.000Z''\<rparr>"


text \<open>A meal list with one meal whose date is the empty string.\<close>

definition undated_meals :: "meal list" where
  "undated_meals = [custom_meal 1 [] 100]"

text \<open>An import file whose one meal has the empty string as its date.\<close>

definition undated_file :: import_file where
  "undated_file =
     \<lparr>file_data = Some \<lparr>data_menus = None, data_meals = Some undated_meals, data_goals = None\<rparr>,
      exportedAt = Some ''2024-01-15T03:00:00.000Z''\<rparr>"

text \<open>The record \<^verbatim>\<open>{id: 3, date: "2024-01-15", menuId: 7}\<close>.\<close>

definition legacy_meal :: stored_meal where
  "legacy_meal =
     \<lparr>stored_id = 3, stored_date = ''2024-01-15'', stored_menuId = Value 7,
      stored_menuName = Undefined, stored_menuCalories = Undefined,
      stored_customName = Undefined, stored_customCalories = Undefined\<rparr>"




text \<open>An export file that holds the goals alone, with a profile.\<close>

definition goals_file :: import_file where
  "goals_file =
     \<lparr>file_data = Some \<lparr>data_menus = None, data_meals = None,
                         data_goals = Some \<lparr>goals_daily = Some 1800,
                                            goals_userData = Some (Some profile)\<rparr>\<rparr>,
      exportedAt = Some ''2024-01-15T03:00:00.000Z''\<rparr>"

section \<open>Calendar lemmas\<close>

lemma div_step:
  fixes a k :: int
  assumes "0 < k"
  shows "(a + 1) div k = (if (a + 1) mod k = 0 then a div k + 1 else a div k)"
proof -
  have split: "a + 1 = k * (a div k) + (a mod k + 1)"
    by simp
  have bnd: "a mod k < k" "0 \<le> a mod k"
    using assms by simp_all
  show ?thesis
  proof (cases "a mod k + 1 = k")
    case True
    have "a + 1 = k * (a div k) + k"
      using split True by simp
    then have "a + 1 = k * (a div k + 1) + 0"
      by (simp add: algebra_simps)
    then have "(a + 1) div k = a div k + 1" "(a + 1) mod k = 0"
      using assms by (metis int_div_pos_eq order_refl, metis int_mod_pos_eq order_refl)
    then show ?thesis by simp
  next
    case False
    have lt: "a mod k + 1 < k" "0 \<le> a mod k + 1"
      using False bnd by linarith+
    have "(a + 1) div k = a div k" "(a + 1) mod k = a mod k + 1"
      using lt split by (metis int_div_pos_eq, metis int_mod_pos_eq)
    moreover have "a mod k + 1 \<noteq> 0" using bnd by linarith
    ultimately show ?thesis by simp
  qed
qed

lemma DayFromYear_step:
  "DayFromYear (y + 1) = DayFromYear y + (if InLeapYear y then 366 else 365)"
proof -
  have shift: "((a - k * c + 1 - 1) mod k = 0) = (a mod k = 0)" for a k c :: int
    using dvd_diff_right_iff [of k "k * c" a] by (simp add: mod_eq_0_iff_dvd dvd_diff_commute)
  have m4: "((y - 1969 + 1) mod 4 = 0) = (y mod 4 = 0)"
    using shift [of y 4 492] by simp
  have m100: "((y - 1901 + 1) mod 100 = 0) = (y mod 100 = 0)"
    using shift [of y 100 19] by simp
  have m400: "((y - 1601 + 1) mod 400 = 0) = (y mod 400 = 0)"
    using shift [of y 400 4] by simp
  have c1: "y mod 400 = 0 \<Longrightarrow> y mod 100 = 0"
    using dvd_trans [of 100 400 y] by (simp add: mod_eq_0_iff_dvd)
  have c2: "y mod 100 = 0 \<Longrightarrow> y mod 4 = 0"
    using dvd_trans [of 4 100 y] by (simp add: mod_eq_0_iff_dvd)
  have d4: "(y - 1969 + 1) div 4 = (y - 1969) div 4 + (if y mod 4 = 0 then 1 else 0)"
    using div_step [of 4 "y - 1969"] m4 by simp
  have d100: "(y - 1901 + 1) div 100 = (y - 1901) div 100 + (if y mod 100 = 0 then 1 else 0)"
    using div_step [of 100 "y - 1901"] m100 by simp
  have d400: "(y - 1601 + 1) div 400 = (y - 1601) div 400 + (if y mod 400 = 0 then 1 else 0)"
    using div_step [of 400 "y - 1601"] m400 by simp
  have "DayFromYear (y + 1) =
          365 * (y - 1970) + 365 + (y - 1969 + 1) div 4 - (y - 1901 + 1) div 100
            + (y - 1601 + 1) div 400"
    by (simp add: DayFromYear_def algebra_simps)
  also have "\<dots> = DayFromYear y + 365 + (if y mod 4 = 0 then 1 else 0)
      - (if y mod 100 = 0 then 1 else 0) + (if y mod 400 = 0 then 1 else (0::int))"
    unfolding d4 d100 d400 DayFromYear_def by linarith
  also have "\<dots> = DayFromYear y + (if InLeapYear y then 366 else 365)"
    using c1 c2 unfolding InLeapYear_def
    by (cases "y mod 4 = 0"; cases "y mod 100 = 0"; cases "y mod 400 = 0"; simp)
  finally show ?thesis .
qed

text \<open>The year, the day within the year and the date of a day number are what ECMAScript
  specifies: \<open>YearFromDay d\<close> is the year whose days hold \<open>d\<close>.\<close>

lemma DayFromYear_bounds:
  "146097 * (y - 1970) - 506 \<le> 400 * DayFromYear y"
  "400 * DayFromYear y \<le> 146097 * (y - 1970) + 589"
proof -
  define A where "A = (y - 1969) div 4"
  define B where "B = (y - 1901) div 100"
  define C where "C = (y - 1601) div 400"
  have a: "4 * A \<le> y - 1969" "y - 1969 - 3 \<le> 4 * A"
    unfolding A_def by (simp_all add: minus_mod_eq_mult_div [symmetric] algebra_simps)
  have b: "100 * B \<le> y - 1901" "y - 1901 - 99 \<le> 100 * B"
    unfolding B_def by (simp_all add: minus_mod_eq_mult_div [symmetric] algebra_simps)
  have c: "400 * C \<le> y - 1601" "y - 1601 - 399 \<le> 400 * C"
    unfolding C_def by (simp_all add: minus_mod_eq_mult_div [symmetric] algebra_simps)
  have a': "400 * A \<le> 100 * y - 196900" "100 * y - 197200 \<le> 400 * A"
    using a by linarith+
  have b': "400 * B \<le> 4 * y - 7604" "4 * y - 8000 \<le> 400 * B"
    using b by linarith+
  have d: "400 * DayFromYear y = 146000 * (y - 1970) + 400 * A - 400 * B + 400 * C"
    by (simp add: DayFromYear_def A_def B_def C_def algebra_simps)
  show "146097 * (y - 1970) - 506 \<le> 400 * DayFromYear y"
    unfolding d using a' b' c by (simp add: algebra_simps)
  show "400 * DayFromYear y \<le> 146097 * (y - 1970) + 589"
    unfolding d using a' b' c by (simp add: algebra_simps)
qed

lemma YearFromDay_bounds:
  "DayFromYear (YearFromDay d) \<le> d \<and> d < DayFromYear (YearFromDay d + 1)"
proof -
  define e where "e = 1970 + (400 * d) div 146097"
  have k: "146097 * (e - 1970) \<le> 400 * d" "400 * d < 146097 * (e - 1970) + 146097"
    unfolding e_def by (simp_all add: minus_mod_eq_mult_div [symmetric] algebra_simps)
  have "400 * DayFromYear (e - 1) \<le> 146097 * (e - 1970) - 145508"
    using DayFromYear_bounds(2) [of "e - 1"] by (simp add: algebra_simps)
  then have lo: "DayFromYear (e - 1) \<le> d"
    using k by (simp add: algebra_simps)
  have "146097 * (e - 1970) + 291688 \<le> 400 * DayFromYear (e + 2)"
    using DayFromYear_bounds(1) [of "e + 2"] by (simp add: algebra_simps)
  then have hi: "d < DayFromYear (e + 2)"
    using k by (simp add: algebra_simps)
  show ?thesis
  proof (cases "d < DayFromYear e")
    case True
    then have "YearFromDay d = e - 1"
      by (simp add: YearFromDay_def e_def Let_def)
    then show ?thesis using lo True by simp
  next
    case False
    show ?thesis
    proof (cases "DayFromYear (e + 1) \<le> d")
      case True
      then have "YearFromDay d = e + 1"
        using False by (simp add: YearFromDay_def e_def Let_def)
      then show ?thesis using True hi by (simp add: add.commute)
    next
      case ge: False
      then have "YearFromDay d = e"
        using False by (simp add: YearFromDay_def e_def Let_def)
      then show ?thesis using False ge by simp
    qed
  qed
qed

lemma DayWithinYear_range:
  "0 \<le> DayWithinYear d \<and>
   DayWithinYear d < DaysBeforeMonth (InLeapYear (YearFromDay d)) 12"
proof -
  have "DaysBeforeMonth (InLeapYear (YearFromDay d)) 12 =
          DayFromYear (YearFromDay d + 1) - DayFromYear (YearFromDay d)"
    by (simp add: DayFromYear_step DaysBeforeMonth_def)
  then show ?thesis
    using YearFromDay_bounds [of d] by (simp add: DayWithinYear_def)
qed

lemma DateFromDay_range: "1 \<le> DateFromDay d \<and> DateFromDay d \<le> 31"
proof -
  define n where "n = DayWithinYear d"
  define l where "l = (if InLeapYear (YearFromDay d) then 1 else (0::int))"
  have r: "0 \<le> n" "n < 365 + l"
    using DayWithinYear_range [of d] by (simp_all add: n_def l_def DaysBeforeMonth_def)
  have l: "l = 0 \<or> l = 1"
    by (simp add: l_def)
  have "DateFromDay d =
      n - (if n < 31 then 0 else if n < 59 + l then 31 else if n < 90 + l then 59 + l
           else if n < 120 + l then 90 + l else if n < 151 + l then 120 + l
           else if n < 181 + l then 151 + l else if n < 212 + l then 181 + l
           else if n < 243 + l then 212 + l else if n < 273 + l then 243 + l
           else if n < 304 + l then 273 + l else if n < 334 + l then 304 + l
           else 334 + l) + 1"
    by (simp add: DateFromDay_def MonthFromDay_def DaysBeforeMonth_def Let_def n_def l_def)
  then show ?thesis
    using r l by (simp split: if_splits) linarith+
qed

lemma MonthFromDay_range: "0 \<le> MonthFromDay d \<and> MonthFromDay d \<le> 11"
  by (simp add: MonthFromDay_def Let_def)

lemma MakeDay_of_day:
  "MakeDay (YearFromDay d) (MonthFromDay d) n = d + n - DateFromDay d"
proof -
  have "MonthFromDay d div 12 = 0" "MonthFromDay d mod 12 = MonthFromDay d"
    using MonthFromDay_range [of d] by simp_all
  then show ?thesis
    by (simp add: MakeDay_def DateFromDay_def DayWithinYear_def Let_def)
qed

lemma setDate_eq: "setDate tz t n = t + (n - getDate tz t) * msPerDay"
proof -
  have "(t + tz) div msPerDay * msPerDay + (t + tz) mod msPerDay = t + tz"
    by simp
  then show ?thesis
    unfolding setDate_def getFullYear_def getMonth_def getDate_def MakeDay_of_day
      Day_def TimeWithinDay_def
    by (simp add: algebra_simps)
qed

lemma DaysBeforeMonth_step:
  assumes "0 \<le> m" "m < 11"
  shows "28 \<le> DaysBeforeMonth leap (m + 1) - DaysBeforeMonth leap m"
proof -
  have "m = 0 \<or> m = 1 \<or> m = 2 \<or> m = 3 \<or> m = 4 \<or> m = 5 \<or> m = 6 \<or> m = 7 \<or> m = 8
          \<or> m = 9 \<or> m = 10"
    using assms by arith
  then show ?thesis
    by (elim disjE) (simp_all add: DaysBeforeMonth_def)
qed

lemma mod12_step:
  fixes m :: int
  shows "(m + 1) mod 12 = (if m mod 12 = 11 then 0 else m mod 12 + 1)"
proof -
  have eq: "(m + 1) mod 12 = (m mod 12 + 1) mod 12"
    by (simp add: mod_simps)
  have bnd: "0 \<le> m mod 12" "m mod 12 < 12"
    by simp_all
  show ?thesis
  proof (cases "m mod 12 = 11")
    case True
    then show ?thesis using eq by simp
  next
    case False
    then have "m mod 12 + 1 < 12" "0 \<le> m mod 12 + 1"
      using bnd by linarith+
    then have "(m mod 12 + 1) mod 12 = m mod 12 + 1"
      by (rule_tac mod_pos_pos_trivial)
    then show ?thesis using eq False by simp
  qed
qed

lemma month_window:
  "27 \<le> MakeDay y (m + 1) 0 - MakeDay y m 1"
proof (cases "m mod 12 = 11")
  case True
  have "(m + 1) mod 12 = 0"
    using True mod12_step [of m] by simp
  moreover have "(m + 1) div 12 = m div 12 + 1"
    using calculation div_step [of 12 m] by simp
  ultimately show ?thesis
    using True DayFromYear_step [of "y + m div 12"]
    by (simp add: MakeDay_def DaysBeforeMonth_def Let_def add.assoc)
next
  case False
  have bnd: "0 \<le> m mod 12" "m mod 12 < 11"
    using False pos_mod_bound [of 12 m] by simp_all
  have step: "(m + 1) mod 12 = m mod 12 + 1"
    using False mod12_step [of m] by simp
  then have "(m + 1) mod 12 \<noteq> 0"
    using bnd by linarith
  then have "(m + 1) div 12 = m div 12"
    using div_step [of 12 m] by simp
  then show ?thesis
    using step DaysBeforeMonth_step [OF bnd, of "InLeapYear (y + m div 12)"]
    by (simp add: MakeDay_def Let_def)
qed

section \<open>Evaluating the calendar\<close>

lemmas calendar_defs =
  msPerDay_def Day_def TimeWithinDay_def DayFromYear_def InLeapYear_def YearFromDay_def
  DaysBeforeMonth_def DayWithinYear_def MonthFromDay_def DateFromDay_def MakeDay_def
  getFullYear_def getMonth_def getDate_def getDay_def new_Date_def setDate_def setMonth_def
  DaysInMonth_def digit_def Date_parse_def

lemma noon_values: "noon_jan15 = 1705287600000" "noon_jan16 = 1705374000000"
  by (simp_all add: noon_jan15_def noon_jan16_def JST_def calendar_defs)

lemma jan15_fields:
  "getFullYear JST noon_jan15 = 2024" "getMonth JST noon_jan15 = 0" "getDate JST noon_jan15 = 15"
  by (simp_all add: noon_values JST_def calendar_defs)

lemma parse_jan31: "Date_parse ''2024-01-31'' = Some 1706659200000"
  by (simp add: calendar_defs)

lemma parse_values:
  "Date_parse ''2024-01-15'' = Some 1705276800000"
  "Date_parse ''2024-01-16'' = Some 1705363200000"
  "Date_parse ''2024-02-15'' = Some 1707955200000"
  "Date_parse ''2024-02-16'' = Some 1708041600000"
  by (simp_all add: calendar_defs)

lemma jan_days: "new_Date JST 2024 0 15 = 1705244400000" "new_Date JST 2024 0 16 = 1705330800000"
  by (simp_all add: JST_def calendar_defs)

lemma cutoff_aug15: "sixMonthsAgo JST noon_aug15 = 1707966000000"
proof -
  have n: "noon_aug15 = 1723690800000"
    by (simp add: noon_aug15_def JST_def calendar_defs)
  show ?thesis
    unfolding n by (simp add: sixMonthsAgo_def JST_def calendar_defs)
qed

section \<open>The window of the statistics\<close>

lemma msPerDay_pos: "0 < msPerDay"
  by (simp add: msPerDay_def)

lemma monthly_window_length:
  "27 * msPerDay \<le> new_Date tz y (m + 1) 0 - new_Date tz y m 1"
proof -
  define yr where "yr = (if 0 \<le> y \<and> y \<le> 99 then 1900 + y else y)"
  have "new_Date tz y (m + 1) 0 - new_Date tz y m 1 =
          (MakeDay yr (m + 1) 0 - MakeDay yr m 1) * msPerDay"
    by (simp add: new_Date_def yr_def Let_def algebra_simps)
  then show ?thesis
    using month_window [of yr m] msPerDay_pos by simp
qed

lemma stats_window_length:
  "p \<noteq> Other \<Longrightarrow>
     startDate (stats_window tz s p t) < endDate (stats_window tz s p t)"
proof (cases p)
  case Monthly
  then show ?thesis
    using monthly_window_length [of tz "getFullYear tz t" "getMonth tz t"] msPerDay_pos
    by (simp add: stats_window_def)
qed (simp_all add: stats_window_def Let_def setDate_eq msPerDay_pos)

lemma calculateStats_window:
  "startDate (calculateStats tz now s p t) = startDate (stats_window tz s p t)"
  "endDate (calculateStats tz now s p t) = endDate (stats_window tz s p t)"
  "total (calculateStats tz now s p t) = total (stats_window tz s p t)"
  "goal (calculateStats tz now s p t) = goal (stats_window tz s p t)"
  by (simp_all add: calculateStats_def Let_def split: option.splits)

lemma calculateStats_elapsedRatio:
  "elapsedRatio (calculateStats tz now s p t) =
     js_divide (min (now - startDate (stats_window tz s p t))
                  (endDate (stats_window tz s p t) - startDate (stats_window tz s p t)))
       (endDate (stats_window tz s p t) - startDate (stats_window tz s p t))"
  by (simp add: calculateStats_def Let_def split: option.splits)

lemma monthly_endDate_last_day:
  "endDate (calculateStats tz now s Monthly t) + msPerDay =
     new_Date tz (getFullYear tz t) (getMonth tz t + 1) 1"
  by (simp add: calculateStats_window stats_window_def new_Date_def MakeDay_def Let_def
      algebra_simps)

text \<open>
  Claim C1. The monthly window should run from the first day of the month of the reference
  date to the first day of the next month, so that a meal dated on the last day of the
  month counts. The code builds the end with \<^verbatim>\<open>new Date(year, month + 1, 0)\<close>, which is
  the last day of the month itself (lemma \<open>monthly_endDate_last_day\<close>: one day short of
  the first of the next month, in every zone and for every date). In Japan, for a reference
  date of 15 January 2024 and a single meal of 500 kcal dated 2024-01-31: the end of the
  window is midnight of 31 January, earlier than 1 February; the total is 0, not 500; the
  goal is still that of all 31 days.
\<close>

theorem monthly_window_misses_last_day:
  "endDate (calculateStats JST noon_jan15 (fresh_tracker [] [custom_meal 1 ''2024-01-31'' 500])
       Monthly noon_jan15) = new_Date JST 2024 0 31
   \<and> new_Date JST 2024 0 31 < new_Date JST 2024 1 1
   \<and> total (calculateStats JST noon_jan15 (fresh_tracker [] [custom_meal 1 ''2024-01-31'' 500])
       Monthly noon_jan15) = 0
   \<and> goal (calculateStats JST noon_jan15 (fresh_tracker [] [custom_meal 1 ''2024-01-31'' 500])
       Monthly noon_jan15) = 31 * 2000"
proof -
  have e: "new_Date JST 2024 1 0 = 1706626800000" "new_Date JST 2024 0 31 = 1706626800000"
    "new_Date JST 2024 1 1 = 1706713200000" "new_Date JST 2024 0 1 = 1704034800000"
    by (simp_all add: JST_def calendar_defs)
  have d: "getDate JST 1706626800000 = 31"
    by (simp add: JST_def calendar_defs)
  show ?thesis
    by (simp add: calculateStats_window stats_window_def jan15_fields e d parse_jan31
        calculateMonthlyCalories_def calculateCaloriesForDateRange_def add_meal_calories_def
        getGoalForPeriod_def fresh_tracker_def custom_meal_def)
qed

text \<open>
  Claim C2, as stated: for every period and every reference date, \<^verbatim>\<open>elapsedRatio\<close> lies
  in \<open>[0, 1]\<close>. It does not for a window that starts in the future: at noon of 15 January
  2024, the daily statistics of 16 January have the ratio \<open>-1/2\<close>. The code takes
  \<^verbatim>\<open>Math.min\<close> with the length of the window and nothing bounds the ratio below.
\<close>

theorem future_day_ratio_negative:
  "\<not> in_unit_interval
       (elapsedRatio (calculateStats JST noon_jan15 (fresh_tracker [] []) Daily noon_jan16))"
proof -
  have f: "getFullYear JST 1705374000000 = 2024" "getMonth JST 1705374000000 = 0"
    "getDate JST 1705374000000 = 16"
    by (simp_all add: JST_def calendar_defs)
  have e: "new_Date JST 2024 0 16 = 1705330800000"
    by (simp add: JST_def calendar_defs)
  show ?thesis
    by (simp add: calculateStats_elapsedRatio stats_window_def f e setDate_eq noon_values
        js_divide_def in_unit_interval_def msPerDay_def Let_def)
qed

lemma stats_window_prediction: "prediction (stats_window tz s p t) = 0"
  by (cases p) (simp_all add: stats_window_def Let_def)

lemma clamped_fraction:
  fixes x d :: int
  assumes "0 < d"
  shows "real_of_int (min x d) / real_of_int d = min (real_of_int x / real_of_int d) 1"
proof (cases "x \<le> d")
  case True
  then have "real_of_int x / real_of_int d \<le> 1"
    using assms by simp
  then show ?thesis using True by (simp add: min_def)
next
  case False
  then have "1 < real_of_int x / real_of_int d"
    using assms by simp
  then show ?thesis using False assms by (simp add: min_def)
qed

text \<open>
  Claim C2, amended. For the periods daily, weekly and monthly and every reference date,
  the window is not empty and \<^verbatim>\<open>elapsedRatio\<close> is the fraction of the window that has
  elapsed as of now, \<open>(now - startDate) / (endDate - startDate)\<close>, clamped above at 1 and
  not clamped below: it lies in \<open>[0, 1]\<close> exactly when the window has started, and is
  negative for a window that starts in the future. The prediction is
  \<^verbatim>\<open>Math.round(total / elapsedRatio)\<close> for the weekly and monthly periods once the window
  has started, and stays 0 otherwise.
\<close>

theorem elapsedRatio_is_fraction_clamped_above:
  assumes "p \<noteq> Other"
  shows "startDate (calculateStats tz now s p t) < endDate (calculateStats tz now s p t)
    \<and> elapsedRatio (calculateStats tz now s p t) =
        Some (min (real_of_int (now - startDate (calculateStats tz now s p t))
                     / real_of_int (endDate (calculateStats tz now s p t)
                                      - startDate (calculateStats tz now s p t))) 1)
    \<and> (in_unit_interval (elapsedRatio (calculateStats tz now s p t))
          \<longleftrightarrow> startDate (calculateStats tz now s p t) \<le> now)
    \<and> prediction (calculateStats tz now s p t) =
        (if p \<noteq> Daily \<and> startDate (calculateStats tz now s p t) < now
         then Math_round (real_of_int (total (calculateStats tz now s p t))
                / min (real_of_int (now - startDate (calculateStats tz now s p t))
                         / real_of_int (endDate (calculateStats tz now s p t)
                                          - startDate (calculateStats tz now s p t))) 1)
         else 0)"
proof -
  define a where "a = startDate (stats_window tz s p t)"
  define b where "b = endDate (stats_window tz s p t)"
  define r where "r = min (real_of_int (now - a) / real_of_int (b - a)) 1"
  have ab: "a < b"
    using stats_window_length [OF assms] by (simp add: a_def b_def)
  then have pos: "0 < real_of_int (b - a)"
    by simp
  have ratio: "js_divide (min (now - a) (b - a)) (b - a) = Some r"
    using ab clamped_fraction [of "b - a" "now - a"] by (simp add: js_divide_def r_def)
  have sign: "0 < r \<longleftrightarrow> a < now"
  proof -
    have "0 < real_of_int (now - a) / real_of_int (b - a) \<longleftrightarrow> a < now"
      using pos by (simp add: zero_less_divide_iff)
    then show ?thesis by (simp add: r_def min_less_iff_conj)
  qed
  have nonneg: "0 \<le> r \<longleftrightarrow> a \<le> now"
  proof -
    have "0 \<le> real_of_int (now - a) / real_of_int (b - a) \<longleftrightarrow> a \<le> now"
      using pos by (simp add: zero_le_divide_iff)
    then show ?thesis by (simp add: r_def)
  qed
  have le: "r \<le> 1"
    by (simp add: r_def)
  have er: "elapsedRatio (calculateStats tz now s p t) = Some r"
    using ratio by (simp add: calculateStats_elapsedRatio a_def b_def)
  have pr: "prediction (calculateStats tz now s p t) =
      (if p \<noteq> Daily \<and> 0 < r
       then Math_round (real_of_int (total (stats_window tz s p t)) / r) else 0)"
    using ratio
    by (simp add: calculateStats_def Let_def a_def b_def stats_window_prediction)
  show ?thesis
    using ab er pr sign nonneg le
    by (simp add: calculateStats_window a_def b_def r_def in_unit_interval_def)
qed

text \<open>The theorem at noon of 15 January 2024 for the week and for the day of 16 January:
  a seventh of the week has elapsed and 500 kcal so far project to 3500; the day has not
  started, its ratio is \<open>-1/2\<close> and its prediction 0.\<close>

theorem elapsedRatio_witness:
  "Weekly \<noteq> Other
   \<and> elapsedRatio (calculateStats JST noon_jan15 (fresh_tracker [] []) Weekly noon_jan16)
       = Some (1 / 7)
   \<and> prediction (calculateStats JST noon_jan15
        (fresh_tracker [] [custom_meal 1 ''2024-01-15'' 500]) Weekly noon_jan16) = 3500
   \<and> elapsedRatio (calculateStats JST noon_jan15 (fresh_tracker [] []) Daily noon_jan16)
       = Some (- 1 / 2)
   \<and> prediction (calculateStats JST noon_jan15 (fresh_tracker [] []) Daily noon_jan16) = 0"
proof -
  have f: "getDate JST 1705374000000 = 16" "getDay JST 1705374000000 = 2"
    "getFullYear JST 1705374000000 = 2024" "getMonth JST 1705374000000 = 0"
    by (simp_all add: JST_def calendar_defs)
  have w: "startDate (calculateStats JST 1705287600000 x Weekly 1705374000000) = 1705201200000"
    "endDate (calculateStats JST 1705287600000 x Weekly 1705374000000) = 1705806000000" for x
    by (simp_all add: calculateStats_window stats_window_def Let_def setDate_eq f msPerDay_def)
  have d: "startDate (calculateStats JST 1705287600000 x Daily 1705374000000) = 1705330800000"
    "endDate (calculateStats JST 1705287600000 x Daily 1705374000000) = 1705417200000" for x
    by (simp_all add: calculateStats_window stats_window_def Let_def setDate_eq f jan_days
        msPerDay_def)
  have tot: "total (calculateStats JST 1705287600000
        (fresh_tracker [] [custom_meal 1 ''2024-01-15'' 500]) Weekly 1705374000000) = 500"
    by (simp add: calculateStats_window stats_window_def Let_def calculateWeeklyCalories_def
        setDate_eq f msPerDay_def calculateCaloriesForDateRange_def
        add_meal_calories_def fresh_tracker_def custom_meal_def parse_values)
  show ?thesis
    using elapsedRatio_is_fraction_clamped_above [of Weekly JST noon_jan15 "fresh_tracker [] []" noon_jan16]
      elapsedRatio_is_fraction_clamped_above [of Weekly JST noon_jan15
        "fresh_tracker [] [custom_meal 1 ''2024-01-15'' 500]" noon_jan16]
      elapsedRatio_is_fraction_clamped_above [of Daily JST noon_jan15 "fresh_tracker [] []" noon_jan16]
    unfolding noon_values
    by (simp add: w d tot Math_round_def)
qed

section \<open>The total of a window\<close>

lemma add_meal_calories_eq:
  "add_meal_calories ms start end' acc meal =
     acc + (if in_window start end' meal then effective_calories ms meal else 0)"
  by (simp add: add_meal_calories_def in_window_def effective_calories_def
      split: option.splits)

lemma foldl_add_meal_calories:
  "foldl (add_meal_calories ms start end') acc ls =
     acc + sum_list (map (effective_calories ms) (filter (in_window start end') ls))"
  by (induction ls arbitrary: acc) (simp_all add: add_meal_calories_eq)

lemma range_sum_mset:
  "calculateCaloriesForDateRange s start end' =
     sum_mset (image_mset (effective_calories (menus s))
       (filter_mset (in_window start end') (mset (meals s))))"
proof -
  have "calculateCaloriesForDateRange s start end' =
          sum_list (map (effective_calories (menus s)) (filter (in_window start end') (meals s)))"
    by (simp add: calculateCaloriesForDateRange_def foldl_add_meal_calories)
  also have "\<dots> = sum_mset (mset (map (effective_calories (menus s))
                        (filter (in_window start end') (meals s))))"
    by (simp only: sum_mset_sum_list)
  finally show ?thesis by simp
qed

text \<open>The total is the sum of the effective calories of the meals in the window, and does
  not depend on the order of the meal list, for records that hold every field.\<close>

lemma range_total_is_sum:
  "calculateCaloriesForDateRange s start end' =
     (\<Sum>meal \<leftarrow> filter (in_window start end') (meals s). effective_calories (menus s) meal)"
  by (simp add: calculateCaloriesForDateRange_def foldl_add_meal_calories)

lemma range_total_order:
  "menus s' = menus s \<Longrightarrow> mset (meals s') = mset (meals s) \<Longrightarrow>
     calculateCaloriesForDateRange s' start end' = calculateCaloriesForDateRange s start end'"
  by (simp add: range_sum_mset)

text \<open>On records that hold every field the total of the stored records is the total
  above, and the loop of the constructor changes nothing.\<close>

lemma add_stored_calories_of_meal:
  "add_stored_calories ms start end' (Some a) (stored_of meal) =
     Some (add_meal_calories ms start end' a meal)"
  by (auto simp add: add_stored_calories_def add_meal_calories_def stored_of_def to_field_def
      plus_field_def find_stored_menu_def find_menu_def split: option.splits)

lemma foldl_stored_of_meals:
  "foldl (add_stored_calories ms start end') (Some a) (map stored_of ls) =
     Some (foldl (add_meal_calories ms start end') a ls)"
  by (induction ls arbitrary: a) (simp_all add: add_stored_calories_of_meal)

lemma stored_range_total_of_meals:
  "stored_range_total (menus s) (map stored_of (meals s)) start end' =
     Some (calculateCaloriesForDateRange s start end')"
  by (simp add: stored_range_total_def calculateCaloriesForDateRange_def foldl_stored_of_meals)

lemma backfill_of_meal: "backfill ms (stored_of meal) = stored_of meal"
  by (simp add: backfill_def stored_of_def to_field_def split: option.splits)

text \<open>
  Claim C7 says that the total of a window is the sum of the effective calories of the
  meals in it: the custom value if there is one, else the snapshot \<^verbatim>\<open>menuCalories\<close>, else
  the calories of the current menu. The code does not do this for the record
  \<^verbatim>\<open>{id: 3, date: "2024-01-15", menuId: 7}\<close> of a tracker whose menu 7 is \<open>rice\<close> with
  200 kcal. The constructor fills \<^verbatim>\<open>menuName\<close> and \<^verbatim>\<open>menuCalories\<close> and leaves
  \<^verbatim>\<open>customCalories\<close> missing; \<^verbatim>\<open>meal.customCalories !== null\<close> is then true of
  \<^verbatim>\<open>undefined\<close>, and the total of 15 January 2024 is \<^verbatim>\<open>0 + undefined\<close>, NaN, with or
  without the repair. The same record with \<^verbatim>\<open>null\<close> in the missing fields totals 200,
  by the snapshot or by the look-up.
\<close>

theorem legacy_record_total_is_NaN:
  "backfill [rice] legacy_meal =
      legacy_meal\<lparr>stored_menuName := Value ''rice'', stored_menuCalories := Value 200\<rparr>
   \<and> stored_range_total [rice] [backfill [rice] legacy_meal]
        (new_Date JST 2024 0 15) (new_Date JST 2024 0 16) = None
   \<and> stored_range_total [rice] [legacy_meal]
        (new_Date JST 2024 0 15) (new_Date JST 2024 0 16) = None
   \<and> stored_range_total [rice] [stored_of (menu_meal 3 ''2024-01-15'' 7 None)]
        (new_Date JST 2024 0 15) (new_Date JST 2024 0 16) = Some 200
   \<and> stored_range_total [rice] [stored_of (menu_meal 3 ''2024-01-15'' 7 (Some 200))]
        (new_Date JST 2024 0 15) (new_Date JST 2024 0 16) = Some 200"
  by (simp add: backfill_def legacy_meal_def truthy_field_def find_stored_menu_def rice_def
      stored_range_total_def add_stored_calories_def plus_field_def parse_values jan_days
      stored_of_def menu_meal_def to_field_def)

section \<open>Archival\<close>

lemma date_split:
  "Date_parse (date m) \<noteq> None \<Longrightarrow> date_not_before c m = (\<not> date_before c m)"
  by (auto simp: date_before_def date_not_before_def)

lemma mset_partition_filter:
  "(\<forall>m\<in>set ls. Q m = (\<not> P m)) \<Longrightarrow> mset (filter P ls) + mset (filter Q ls) = mset ls"
  by (induction ls) auto

text \<open>\<^verbatim>\<open>getOldData\<close> returns the meals dated before the cut-off, \<^verbatim>\<open>removeOldData\<close> keeps
  the meals dated at or after it; the two are a partition of the meal list when the date of
  every meal is a date.\<close>

lemma old_data_partition:
  "getOldData tz now s =
      filter (\<lambda>m. \<exists>t. Date_parse (date m) = Some t \<and> t < sixMonthsAgo tz now) (meals s)"
  "meals (removeOldData tz now s) =
      filter (\<lambda>m. \<exists>t. Date_parse (date m) = Some t \<and> sixMonthsAgo tz now \<le> t) (meals s)"
  "\<forall>m\<in>set (meals s). Date_parse (date m) \<noteq> None \<Longrightarrow>
     mset (getOldData tz now s) + mset (meals (removeOldData tz now s)) = mset (meals s)"
proof -
  have b: "date_before c = (\<lambda>m. \<exists>t. Date_parse (date m) = Some t \<and> t < c)" for c
    by (auto simp: date_before_def fun_eq_iff split: option.splits)
  have nb: "date_not_before c = (\<lambda>m. \<exists>t. Date_parse (date m) = Some t \<and> c \<le> t)" for c
    by (auto simp: date_not_before_def fun_eq_iff split: option.splits)
  show "getOldData tz now s =
      filter (\<lambda>m. \<exists>t. Date_parse (date m) = Some t \<and> t < sixMonthsAgo tz now) (meals s)"
    by (simp add: getOldData_def b)
  show "meals (removeOldData tz now s) =
      filter (\<lambda>m. \<exists>t. Date_parse (date m) = Some t \<and> sixMonthsAgo tz now \<le> t) (meals s)"
    by (simp add: removeOldData_def saveMeals_def nb)
  assume ok: "\<forall>m\<in>set (meals s). Date_parse (date m) \<noteq> None"
  let ?c = "sixMonthsAgo tz now"
  have "\<forall>m\<in>set (meals s). date_not_before ?c m = (\<not> date_before ?c m)"
    using ok date_split by blast
  then show "mset (getOldData tz now s) + mset (meals (removeOldData tz now s)) = mset (meals s)"
    by (simp add: getOldData_def removeOldData_def saveMeals_def mset_partition_filter
        del: mset_filter)
qed

text \<open>
  Claim C8 says that \<^verbatim>\<open>removeOldData\<close> leaves the complement of what \<^verbatim>\<open>getOldData\<close>
  returns, and that the two results partition the meal list. The code does not do this
  for a meal whose date is the empty string, which \<^verbatim>\<open>importData\<close> takes as it is: after
  the import of the file \<open>undated_file\<close> the tracker holds that meal, \<^verbatim>\<open>getOldData\<close> at
  noon of 15 August 2024 returns nothing, and \<^verbatim>\<open>removeOldData\<close> deletes the meal from the
  list and from the store. Both comparisons with an Invalid Date are false.
\<close>

theorem undated_meal_deleted_unarchived:
  "fst (importData (Some undated_file) replace_all (fresh_tracker [] []))
      = Inr \<lparr>imported_menus = False, imported_meals = True, imported_goals = False\<rparr>
   \<and> meals (snd (importData (Some undated_file) replace_all (fresh_tracker [] [])))
      = [custom_meal 1 [] 100]
   \<and> getOldData JST noon_aug15
        (snd (importData (Some undated_file) replace_all (fresh_tracker [] []))) = []
   \<and> meals (removeOldData JST noon_aug15
        (snd (importData (Some undated_file) replace_all (fresh_tracker [] [])))) = []
   \<and> localStorage (removeOldData JST noon_aug15
        (snd (importData (Some undated_file) replace_all (fresh_tracker [] [])))) ''meals''
      = Some (StoredMeals [])"
  by (simp add: importData_def validateImportData_def import_meals_def saveMeals_def
      falsy_string_def Let_def undated_file_def undated_meals_def replace_all_def
      fresh_tracker_def getOldData_def removeOldData_def date_before_def date_not_before_def
      custom_meal_def Date_parse_def)

section \<open>Menus and the meals that refer to them\<close>



section \<open>What each operation persists\<close>

lemmas import_defs =
  importData_def validateImportData_def import_menus_def import_meals_def import_goals_def
  saveMenus_def saveMeals_def falsy_string_def assign_goals_def spread_goals_def Let_def

lemma addMenu_persists: "menus_persisted (snd (addMenu now nm cal s))"
  by (simp add: addMenu_def saveMenus_def menus_persisted_def Let_def)

lemma deleteMenu_persists: "menus_persisted (deleteMenu i s)"
  by (simp add: deleteMenu_def saveMenus_def menus_persisted_def)

lemma addMeal_persists: "meals_persisted (snd (addMeal now d mid cn cc s))"
  by (simp add: addMeal_def saveMeals_def meals_persisted_def Let_def)

lemma deleteMeal_persists: "meals_persisted (deleteMeal i s)"
  by (simp add: deleteMeal_def saveMeals_def meals_persisted_def)

lemma removeOldData_persists: "meals_persisted (removeOldData tz now s)"
  by (simp add: removeOldData_def saveMeals_def meals_persisted_def)

lemma saveGoals_persists:
  "daily_persisted (saveGoals d ud s)"
  "userData (goals (saveGoals d ud s)) \<noteq> userData (goals s) \<Longrightarrow>
     userData_persisted (saveGoals d ud s)"
  by (simp_all add: saveGoals_def daily_persisted_def userData_persisted_def Let_def
      split: option.splits)

lemma import_menus_frame:
  "meals (import_menus d opts s) = meals s"
  "goals (import_menus d opts s) = goals s"
  "k \<noteq> ''menus'' \<Longrightarrow> localStorage (import_menus d opts s) k = localStorage s k"
  "data_menus d \<noteq> None \<Longrightarrow> menus_persisted (import_menus d opts s)"
  by (auto simp: import_menus_def saveMenus_def menus_persisted_def split: option.splits)

lemma import_meals_frame:
  "menus (import_meals d opts s) = menus s"
  "goals (import_meals d opts s) = goals s"
  "k \<noteq> ''meals'' \<Longrightarrow> localStorage (import_meals d opts s) k = localStorage s k"
  "data_meals d \<noteq> None \<Longrightarrow> meals_persisted (import_meals d opts s)"
  by (auto simp: import_meals_def saveMeals_def meals_persisted_def split: option.splits)

lemma import_goals_frame:
  "menus (import_goals d opts s) = menus s"
  "meals (import_goals d opts s) = meals s"
  "k \<noteq> ''dailyGoal'' \<Longrightarrow> localStorage (import_goals d opts s) k = localStorage s k"
  "data_goals d \<noteq> None \<Longrightarrow> daily_persisted (import_goals d opts s)"
  by (auto simp: import_goals_def daily_persisted_def Let_def split: option.splits)

section \<open>Import\<close>

lemma importData_not_json:
  "importData None opts s = (Inl JsonSyntaxError, s)"
  by (simp add: importData_def)

lemma importData_no_data:
  "file_data f = None \<Longrightarrow> importData (Some f) opts s = (Inl InvalidImportFile, s)"
  by (simp add: importData_def)

lemma importData_no_stamp:
  "file_data f = Some d \<Longrightarrow> falsy_string (exportedAt f) \<Longrightarrow>
     importData (Some f) opts s = (Inl InvalidImportFile, s)"
  by (simp add: importData_def)

lemma importData_no_section:
  "file_data f = Some d \<Longrightarrow> \<not> falsy_string (exportedAt f) \<Longrightarrow>
   \<not> isValid (validateImportData d) \<Longrightarrow>
     importData (Some f) opts s = (Inl InvalidImportFormat, s)"
  by (simp add: importData_def Let_def)

lemma importData_valid:
  "file_data f = Some d \<Longrightarrow> \<not> falsy_string (exportedAt f) \<Longrightarrow>
   isValid (validateImportData d) \<Longrightarrow>
     importData (Some f) opts s =
       (Inr \<lparr>imported_menus =
               (details_menus (details (validateImportData d)) \<and> types_menus (types opts)),
             imported_meals =
               (details_meals (details (validateImportData d)) \<and> types_meals (types opts)),
             imported_goals =
               (details_goals (details (validateImportData d)) \<and> types_goals (types opts))\<rparr>,
        (if details_goals (details (validateImportData d)) \<and> types_goals (types opts)
         then import_goals d opts else (\<lambda>s. s))
        ((if details_meals (details (validateImportData d)) \<and> types_meals (types opts)
          then import_meals d opts else (\<lambda>s. s))
         ((if details_menus (details (validateImportData d)) \<and> types_menus (types opts)
           then import_menus d opts else (\<lambda>s. s)) s)))"
  by (simp add: importData_def Let_def)

lemma importData_cases:
  obtains (failure) e where "importData file opts s = (Inl e, s)"
  | (success) f d where "file = Some f" "file_data f = Some d"
      "\<not> falsy_string (exportedAt f)" "isValid (validateImportData d)"
proof (cases "file")
  case None
  then show ?thesis using failure importData_not_json by metis
next
  case (Some f)
  show ?thesis
  proof (cases "file_data f")
    case None
    then show ?thesis using failure Some importData_no_data by metis
  next
    case (Some d)
    show ?thesis
    proof (cases "falsy_string (exportedAt f) \<or> \<not> isValid (validateImportData d)")
      case True
      then show ?thesis
        using failure \<open>file = Some f\<close> Some importData_no_stamp importData_no_section by metis
    next
      case False
      then show ?thesis using success \<open>file = Some f\<close> Some by blast
    qed
  qed
qed

lemma importData_failure_state:
  "isl (fst (importData file opts s)) \<Longrightarrow> snd (importData file opts s) = s"
  by (cases rule: importData_cases [of "file" opts s]) (simp_all add: importData_valid)

lemma importData_persists_menus:
  assumes "menus (snd (importData file opts s)) \<noteq> menus s"
  shows "menus_persisted (snd (importData file opts s))"
proof (cases rule: importData_cases [of "file" opts s])
  case (failure e)
  then show ?thesis using assms by simp
next
  case (success f d)
  note st = importData_valid [OF success(2-4), of opts s]
  have ran: "details_menus (details (validateImportData d)) \<and> types_menus (types opts)"
    using assms unfolding success(1) st
    by (auto simp: import_goals_frame import_meals_frame split: if_splits)
  then have "data_menus d \<noteq> None"
    by (simp add: validateImportData_def Let_def)
  then have "menus_persisted (import_menus d opts s)"
    by (rule import_menus_frame)
  then show ?thesis
    unfolding success(1) st using ran
    by (simp add: menus_persisted_def import_goals_frame import_meals_frame)
qed

lemma importData_persists_meals:
  assumes "meals (snd (importData file opts s)) \<noteq> meals s"
  shows "meals_persisted (snd (importData file opts s))"
proof (cases rule: importData_cases [of "file" opts s])
  case (failure e)
  then show ?thesis using assms by simp
next
  case (success f d)
  note st = importData_valid [OF success(2-4), of opts s]
  have ran: "details_meals (details (validateImportData d)) \<and> types_meals (types opts)"
    using assms unfolding success(1) st
    by (auto simp: import_goals_frame import_menus_frame split: if_splits)
  then have "data_meals d \<noteq> None"
    by (simp add: validateImportData_def Let_def)
  then have "meals_persisted (import_meals d opts s')" for s'
    by (rule import_meals_frame)
  then show ?thesis
    unfolding success(1) st using ran
    by (simp add: meals_persisted_def import_goals_frame)
qed

lemma importData_persists_daily:
  assumes "daily (goals (snd (importData file opts s))) \<noteq> daily (goals s)"
  shows "daily_persisted (snd (importData file opts s))"
proof (cases rule: importData_cases [of "file" opts s])
  case (failure e)
  then show ?thesis using assms by simp
next
  case (success f d)
  note st = importData_valid [OF success(2-4), of opts s]
  have ran: "details_goals (details (validateImportData d)) \<and> types_goals (types opts)"
    using assms unfolding success(1) st
    by (auto simp: import_meals_frame import_menus_frame split: if_splits)
  then have "data_goals d \<noteq> None"
    by (auto simp: validateImportData_def Let_def split: option.splits)
  then have "daily_persisted (import_goals d opts s')" for s'
    by (rule import_goals_frame)
  then show ?thesis
    unfolding success(1) st using ran by simp
qed

text \<open>
  Claim C3. Every mutating operation should write what it changed back to the store in
  full; an import of the goals should persist the daily goal and the profile. The lemmas
  above show it for \<^verbatim>\<open>addMenu\<close>, \<^verbatim>\<open>deleteMenu\<close>, \<^verbatim>\<open>addMeal\<close>, \<^verbatim>\<open>deleteMeal\<close>,
  \<^verbatim>\<open>removeOldData\<close>, \<^verbatim>\<open>saveGoals\<close> and for the menus, the meals and the daily goal of
  an import. The
  goals of an import are not persisted in full: \<^verbatim>\<open>importData\<close> writes the key
  \<^verbatim>\<open>dailyGoal\<close> alone. Importing a file with the goals \<open>1800\<close> and a profile into a
  fresh tracker sets both in memory, and the store holds the daily goal and no profile;
  the next start reads the profile as \<^verbatim>\<open>null\<close>. \<^verbatim>\<open>saveGoals\<close> with the same values
  persists the profile.
\<close>

theorem import_goals_loses_userData:
  "fst (importData (Some goals_file) replace_all (fresh_tracker [] [])) =
      Inr \<lparr>imported_menus = False, imported_meals = False, imported_goals = True\<rparr>
   \<and> goals (snd (importData (Some goals_file) replace_all (fresh_tracker [] []))) =
      \<lparr>daily = 1800, userData = Some profile\<rparr>
   \<and> daily_persisted (snd (importData (Some goals_file) replace_all (fresh_tracker [] [])))
   \<and> \<not> userData_persisted (snd (importData (Some goals_file) replace_all (fresh_tracker [] [])))
   \<and> localStorage (snd (importData (Some goals_file) replace_all (fresh_tracker [] [])))
        ''userData'' = None
   \<and> stored_goals (localStorage (snd (importData (Some goals_file) replace_all
        (fresh_tracker [] [])))) = \<lparr>daily = 1800, userData = None\<rparr>
   \<and> userData_persisted (saveGoals 1800 (Some profile) (fresh_tracker [] []))"
  by (simp add: import_defs goals_file_def replace_all_def fresh_tracker_def
      daily_persisted_def userData_persisted_def stored_goals_def saveGoals_def)

text \<open>
  Claim C10. Validation counts an empty array as a section that is present: the payload
  \<^verbatim>\<open>{menus: []}\<close> is valid with \<^verbatim>\<open>details.menus\<close> true, and importing it with
  \<^verbatim>\<open>merge: false\<close> and the menus enabled replaces the menus in memory (and in the store)
  with the empty list.
\<close>

theorem empty_menus_section_counts:
  "validateImportData \<lparr>data_menus = Some [], data_meals = None, data_goals = None\<rparr> =
      \<lparr>isValid = True,
       details = \<lparr>details_menus = True, details_meals = False, details_goals = False\<rparr>\<rparr>
   \<and> (data_menus d = Some [] \<longrightarrow>
        isValid (validateImportData d) \<and> details_menus (details (validateImportData d)))
   \<and> (data_menus d = Some [] \<and> \<not> merge opts \<and> types_menus (types opts) \<and> stamp \<noteq> [] \<longrightarrow>
        (\<exists>r. fst (importData (Some \<lparr>file_data = Some d, exportedAt = Some stamp\<rparr>) opts s) = Inr r
              \<and> imported_menus r)
        \<and> menus (snd (importData (Some \<lparr>file_data = Some d, exportedAt = Some stamp\<rparr>) opts s)) = []
        \<and> localStorage (snd (importData (Some \<lparr>file_data = Some d, exportedAt = Some stamp\<rparr>) opts s))
            ''menus'' = Some (StoredMenus []))"
  by (simp add: importData_def validateImportData_def Let_def import_menus_def
      import_meals_def import_goals_def saveMenus_def saveMeals_def falsy_string_def
      split: option.splits)

text \<open>The theorem for a tracker that holds one menu.\<close>

theorem empty_menus_witness:
  "data_menus \<lparr>data_menus = Some [], data_meals = None, data_goals = None\<rparr> = Some []
   \<and> \<not> merge replace_all \<and> types_menus (types replace_all)
   \<and> ''2024-01-15T03:00:00.000Z'' \<noteq> []
   \<and> menus (fresh_tracker [rice] []) = [rice]
   \<and> menus (snd (importData (Some empty_menus_file) replace_all (fresh_tracker [rice] []))) = []
   \<and> localStorage (snd (importData (Some empty_menus_file) replace_all (fresh_tracker [rice] [])))
        ''menus'' = Some (StoredMenus [])"
  using empty_menus_section_counts [where opts = replace_all
      and d = "\<lparr>data_menus = Some [], data_meals = None, data_goals = None\<rparr>"
      and stamp = "''2024-01-15T03:00:00.000Z''" and s = "fresh_tracker [rice] []"]
  by (simp add: replace_all_def empty_menus_file_def fresh_tracker_def)

section \<open>Round trip\<close>




section \<open>Merge\<close>

lemma merge_item_eq:
  "merge_item key merged item =
     (if key item \<in> key ` set merged then merged else merged @ [item])"
proof -
  have "(find (\<lambda>existing. key existing = key item) merged = None)
          = (key item \<notin> key ` set merged)"
    unfolding find_None_iff image_iff by metis
  then show ?thesis
    by (cases "find (\<lambda>existing. key existing = key item) merged")
       (simp_all add: merge_item_def)
qed





section \<open>Import of arrays that hold \<^verbatim>\<open>null\<close>, into a store that may refuse\<close>

text \<open>On arrays without \<^verbatim>\<open>null\<close> the merge with its exceptions is \<open>mergeData\<close>.\<close>

lemma find_entry_Some:
  "find_entry key (map Some merged) (Some item) = Inr (key item \<in> key ` set merged)"
  by (induction merged) auto

lemma merge_entries_Some:
  "merge_entries key (map Some cur) (map Some new) = Inr (map Some (mergeData key cur new))"
proof (induction new arbitrary: cur)
  case Nil
  show ?case by (simp add: mergeData_def)
next
  case (Cons x xs)
  have step: "(if key x \<in> key ` set cur then map Some cur else map Some cur @ [Some x])
                = map Some (merge_item key cur x)"
    by (simp add: merge_item_eq)
  show ?case
    using Cons.IH [of "merge_item key cur x"]
    by (simp add: find_entry_Some step mergeData_def del: map_append)
qed



























lemma import_menus_raw_of:
  "import_menus_raw accept_all
      \<lparr>payload_menus = map_option (map Some) (data_menus d),
       payload_meals = map_option (map Some) (data_meals d),
       payload_goals = data_goals d\<rparr> opts (raw_of_tracker t)
     = (None, raw_of_tracker (import_menus d opts t))"
  by (cases "data_menus d")
     (auto simp add: import_menus_raw_def import_menus_def raw_of_tracker_def merge_entries_Some
        saveMenus_raw_def saveMenus_def accept_all_def fun_eq_iff raw_of_stored_def)

lemma import_meals_raw_of:
  "import_meals_raw accept_all
      \<lparr>payload_menus = map_option (map Some) (data_menus d),
       payload_meals = map_option (map Some) (data_meals d),
       payload_goals = data_goals d\<rparr> opts (raw_of_tracker t)
     = (None, raw_of_tracker (import_meals d opts t))"
  by (cases "data_meals d")
     (auto simp add: import_meals_raw_def import_meals_def raw_of_tracker_def merge_entries_Some
        saveMeals_raw_def saveMeals_def accept_all_def fun_eq_iff raw_of_stored_def)

lemma import_goals_raw_of:
  "import_goals_raw accept_all
      \<lparr>payload_menus = map_option (map Some) (data_menus d),
       payload_meals = map_option (map Some) (data_meals d),
       payload_goals = data_goals d\<rparr> opts (raw_of_tracker t)
     = (None, raw_of_tracker (import_goals d opts t))"
  by (cases "data_goals d")
     (auto simp add: import_goals_raw_def import_goals_def raw_of_tracker_def Let_def
        accept_all_def fun_eq_iff raw_of_stored_def)

lemma validate_raw_of:
  "validate_raw \<lparr>payload_menus = map_option (map Some) (data_menus d),
       payload_meals = map_option (map Some) (data_meals d),
       payload_goals = data_goals d\<rparr> = validateImportData d"
  by (simp add: validate_raw_def validateImportData_def)

text \<open>On arrays without \<^verbatim>\<open>null\<close> and a store that accepts every write, the import of this
  section is the import of the first model.\<close>

lemma importData_raw_of:
  "importData_raw accept_all (map_option raw_of_file file) opts (raw_of_tracker t) =
     (map_sum Thrown id (fst (importData file opts t)),
      raw_of_tracker (snd (importData file opts t)))"
proof (cases "file")
  case None
  then show ?thesis by (simp add: importData_raw_def importData_def)
next
  case (Some f)
  show ?thesis
  proof (cases "file_data f")
    case None
    then show ?thesis
      using Some by (simp add: importData_raw_def importData_def raw_of_file_def)
  next
    case d: (Some d)
    show ?thesis
      using Some d
      by (simp add: importData_raw_def importData_def raw_of_file_def Let_def validate_raw_of
          import_sections_def import_menus_raw_of import_meals_raw_of import_goals_raw_of)
  qed
qed




section \<open>Merge import\<close>






end
